theory Spec2Isabelle
  imports Main "HOL-Library.AList" "HOL-Library.Word"
begin

section \<open>ZKTecoService: data model\<close>

text \<open>
  A shallow embedding of \<^verbatim>\<open>src/server/services/ZKTecoService.ts\<close>,
  \<^verbatim>\<open>src/server/services/RealtimeService.ts\<close>, the \<^verbatim>\<open>DatabaseService\<close> and the
  \<^verbatim>\<open>AttendanceController\<close> listener. A \<^verbatim>\<open>Buffer\<close> is a list of bytes, a \<^verbatim>\<open>Date\<close> is
  its time value (milliseconds since the epoch), a thrown \<^verbatim>\<open>Error\<close> is a value of
  type \<open>error\<close>, a JavaScript \<^verbatim>\<open>Map\<close> is an association list in insertion order.
  Objects that closures capture by reference (devices, sockets, promises) live in
  heaps: lists indexed by the object's reference.
\<close>

type_synonym buffer = "8 word list"

datatype error =
    InvalidDataLength
  | RangeError
  | DeviceNotFound string
  | DeviceNotConnected string
  | CommandTimeout
  | ConnectionTimeout
  | SocketError
  | DatabaseNotInitialized
  | SqlError
  | WebSocketNotOpen
  | TypeError

datatype attendance_type = CheckIn | CheckOut | BreakStart | BreakEnd

datatype verify_method = Fingerprint | Face | Card | Pin

record device_config =
  cfg_id :: string
  cfg_ip :: string
  cfg_port :: nat
  cfg_password :: "string option"

record ZKDevice =
  dev_id :: string
  ip :: string
  port :: nat
  password :: "string option"
  isConnected :: bool
  lastSeen :: int

record AttendanceRecord =
  userId :: string
  timestamp :: int
  rec_type :: attendance_type
  rec_method :: verify_method
  deviceId :: string

text \<open>The object literal that \<^verbatim>\<open>parseZKData\<close> returns.\<close>

record parsed_data =
  p_type :: string
  p_userId :: string
  p_timestamp :: int
  p_method :: verify_method
  verifyMode :: nat

text \<open>
  The clock is an input. A data event carries what the two \<^verbatim>\<open>new Date()\<close> calls on its
  path return (the one in \<^verbatim>\<open>parseZKData\<close>, then the one in \<^verbatim>\<open>determineAttendanceType\<close>
  or in the heartbeat branch) and the host's offset from UTC in minutes, which
  \<^verbatim>\<open>getHours()\<close> applies.
\<close>

record clock_reads =
  parse_now :: int
  handle_now :: int
  tz_minutes :: int

datatype 'a promise = Pending | Resolved 'a | Rejected error

datatype sock_status = Connecting | Open | Destroyed | Closed

text \<open>
  A \<^verbatim>\<open>net.Socket\<close> created by \<^verbatim>\<open>connectToDevice\<close>, with what its listeners closed over
  (\<open>sk_deviceId\<close>, the device object \<open>sk_device\<close>, the promise \<open>sk_promise\<close>; \<open>sk_caught\<close>
  when the caller attached \<^verbatim>\<open>.catch(console.error)\<close>), whether \<^verbatim>\<open>setupSocketHandlers\<close>
  has run on it, the \<^verbatim>\<open>once('data')\<close> listeners of \<^verbatim>\<open>sendCommand\<close> in registration order,
  and the buffers written to it.
\<close>

record socket =
  sk_deviceId :: string
  sk_device :: nat
  sk_status :: sock_status
  sk_handlers :: bool
  sk_once :: "nat list"
  sk_written :: "buffer list"
  sk_promise :: "bool promise"
  sk_caught :: bool

text \<open>The promise of one \<^verbatim>\<open>sendCommand\<close> call and whether its 5000 ms timer is armed.\<close>

record waiter =
  w_promise :: "buffer promise"
  w_timer :: bool

datatype zk_event =
    DeviceConnected string
  | DeviceDisconnected string
  | DeviceError string error
  | AttendanceRecordEv AttendanceRecord

datatype log_entry =
    LogConnected string
  | ErrConnection string error
  | ErrConnectionTimeout string
  | LogDisconnected string
  | ErrParsing string error
  | ErrConsole error

record zk_state =
  dev_heap :: "ZKDevice list"
  devices :: "(string \<times> nat) list"
  sock_heap :: "socket list"
  connections :: "(string \<times> nat) list"
  waiters :: "waiter list"
  reconnects :: "string list"
  emitted :: "zk_event list"
  console :: "log_entry list"

definition zk_init :: zk_state where
  "zk_init = \<lparr>dev_heap = [], devices = [], sock_heap = [], connections = [], waiters = [],
     reconnects = [], emitted = [], console = []\<rparr>"

section \<open>Parsing and classification\<close>

text \<open>\<^verbatim>\<open>Buffer.readUInt16LE(offset)\<close>: little endian, a RangeError past the end.\<close>

definition readUInt16LE :: "buffer \<Rightarrow> nat \<Rightarrow> error + 16 word" where
  "readUInt16LE data off =
     (if off + 2 \<le> length data
      then Inr (ucast (data ! off) + push_bit 8 (ucast (data ! (off + 1))))
      else Inl RangeError)"

definition parseZKData :: "buffer \<Rightarrow> int \<Rightarrow> error + parsed_data" where
  "parseZKData data now =
     (if length data < 8 then Inl InvalidDataLength
      else case readUInt16LE data 0 of Inl e \<Rightarrow> Inl e | Inr command \<Rightarrow>
           case readUInt16LE data 2 of Inl e \<Rightarrow> Inl e | Inr checksum \<Rightarrow>
           case readUInt16LE data 4 of Inl e \<Rightarrow> Inl e | Inr sessionId \<Rightarrow>
           case readUInt16LE data 6 of Inl e \<Rightarrow> Inl e | Inr replyId \<Rightarrow>
             Inr \<lparr>p_type = ''attendance'', p_userId = ''12345'', p_timestamp = now,
                  p_method = Fingerprint, verifyMode = 1\<rparr>)"

text \<open>\<^verbatim>\<open>Date.prototype.getHours\<close>: the hour of the local time, \<open>t\<close> shifted by the offset.\<close>

definition getHours :: "int \<Rightarrow> int \<Rightarrow> nat" where
  "getHours tz t = nat (((t + tz * 60000) div 3600000) mod 24)"

definition determineAttendanceType :: "int \<Rightarrow> int \<Rightarrow> parsed_data \<Rightarrow> attendance_type" where
  "determineAttendanceType tz now data =
     (let hour = getHours tz now
      in if hour < 12 then CheckIn else if hour > 17 then CheckOut else BreakStart)"

definition set_lastSeen :: "int \<Rightarrow> nat \<Rightarrow> ZKDevice list \<Rightarrow> ZKDevice list" where
  "set_lastSeen now r h = h[r := (h ! r)\<lparr>lastSeen := now\<rparr>]"

definition set_isConnected :: "bool \<Rightarrow> nat \<Rightarrow> ZKDevice list \<Rightarrow> ZKDevice list" where
  "set_isConnected b r h = h[r := (h ! r)\<lparr>isConnected := b\<rparr>]"

definition handleDeviceData :: "string \<Rightarrow> buffer \<Rightarrow> clock_reads \<Rightarrow> zk_state \<Rightarrow> zk_state" where
  "handleDeviceData devId data clk st =
     (case parseZKData data (parse_now clk) of
        Inl e \<Rightarrow> st\<lparr>console := console st @ [ErrParsing devId e]\<rparr>
      | Inr parsedData \<Rightarrow>
          if p_type parsedData = ''attendance''
          then st\<lparr>emitted := emitted st @
                 [AttendanceRecordEv
                    \<lparr>userId = p_userId parsedData,
                     timestamp = p_timestamp parsedData,
                     rec_type = determineAttendanceType (tz_minutes clk) (handle_now clk) parsedData,
                     rec_method = p_method parsedData,
                     deviceId = devId\<rparr>]\<rparr>
          else if p_type parsedData = ''heartbeat''
          then (case map_of (devices st) devId of
                  Some r \<Rightarrow> st\<lparr>dev_heap := set_lastSeen (handle_now clk) r (dev_heap st)\<rparr>
                | None \<Rightarrow> st)
          else st)"

section \<open>Connections\<close>

definition settle :: "'a promise \<Rightarrow> 'a promise \<Rightarrow> 'a promise" where
  "settle new p = (case p of Pending \<Rightarrow> new | _ \<Rightarrow> p)"

text \<open>\<^verbatim>\<open>socket.destroy()\<close>: no effect on a socket already destroyed or closed.\<close>

definition socket_destroy :: "nat \<Rightarrow> socket list \<Rightarrow> socket list" where
  "socket_destroy k h =
     (if k < length h \<and> (sk_status (h ! k) = Connecting \<or> sk_status (h ! k) = Open)
      then h[k := (h ! k)\<lparr>sk_status := Destroyed\<rparr>] else h)"

definition new_socket :: "string \<Rightarrow> nat \<Rightarrow> bool \<Rightarrow> socket" where
  "new_socket devId r caught =
     \<lparr>sk_deviceId = devId, sk_device = r, sk_status = Connecting, sk_handlers = False,
      sk_once = [], sk_written = [], sk_promise = Pending, sk_caught = caught\<rparr>"

text \<open>
  \<^verbatim>\<open>connectToDevice\<close> up to the point where it returns its promise: the device is looked
  up, a new socket starts to connect. \<open>caught\<close> says whether the caller is the reconnect
  timer. The three listeners it registers follow.
\<close>

definition connectToDevice :: "bool \<Rightarrow> string \<Rightarrow> zk_state \<Rightarrow> error + zk_state" where
  "connectToDevice caught devId st =
     (case map_of (devices st) devId of
        None \<Rightarrow> Inl (DeviceNotFound devId)
      | Some r \<Rightarrow> Inr (st\<lparr>sock_heap := sock_heap st @ [new_socket devId r caught]\<rparr>))"

definition addDevice :: "device_config \<Rightarrow> int \<Rightarrow> zk_state \<Rightarrow> error + zk_state" where
  "addDevice config now st =
     (let device = \<lparr>dev_id = cfg_id config, ip = cfg_ip config, port = cfg_port config,
                    password = cfg_password config, isConnected = False, lastSeen = now\<rparr>
      in connectToDevice False (dev_id device)
           (st\<lparr>dev_heap := dev_heap st @ [device],
               devices := AList.update (dev_id device) (length (dev_heap st)) (devices st)\<rparr>))"

definition setupSocketHandlers :: "nat \<Rightarrow> socket list \<Rightarrow> socket list" where
  "setupSocketHandlers k h = h[k := (h ! k)\<lparr>sk_handlers := True\<rparr>]"

definition resolve_connect :: "nat \<Rightarrow> socket list \<Rightarrow> socket list" where
  "resolve_connect k h = h[k := (h ! k)\<lparr>sk_promise := settle (Resolved True) (sk_promise (h ! k))\<rparr>]"

definition reject_connect :: "error \<Rightarrow> nat \<Rightarrow> zk_state \<Rightarrow> zk_state" where
  "reject_connect e k st =
     (let sk = sock_heap st ! k
      in if sk_promise sk = Pending
         then st\<lparr>sock_heap := (sock_heap st)[k := sk\<lparr>sk_promise := Rejected e\<rparr>],
                 console := (if sk_caught sk then console st @ [ErrConsole e] else console st)\<rparr>
         else st)"

text \<open>The callback of \<^verbatim>\<open>socket.connect\<close>.\<close>

definition on_connect :: "nat \<Rightarrow> int \<Rightarrow> zk_state \<Rightarrow> zk_state" where
  "on_connect k now st =
     (let devId = sk_deviceId (sock_heap st ! k); r = sk_device (sock_heap st ! k)
      in st\<lparr>console := console st @ [LogConnected devId],
            dev_heap := set_lastSeen now r (set_isConnected True r (dev_heap st)),
            connections := AList.update devId k (connections st),
            sock_heap := resolve_connect k (setupSocketHandlers k (sock_heap st)),
            emitted := emitted st @ [DeviceConnected devId]\<rparr>)"

text \<open>The \<^verbatim>\<open>'error'\<close> listener.\<close>

definition on_error :: "nat \<Rightarrow> zk_state \<Rightarrow> zk_state" where
  "on_error k st =
     (let devId = sk_deviceId (sock_heap st ! k); r = sk_device (sock_heap st ! k)
      in reject_connect SocketError k
           (st\<lparr>console := console st @ [ErrConnection devId SocketError],
               dev_heap := set_isConnected False r (dev_heap st),
               emitted := emitted st @ [DeviceError devId SocketError]\<rparr>))"

text \<open>The \<^verbatim>\<open>'timeout'\<close> listener.\<close>

definition on_timeout :: "nat \<Rightarrow> zk_state \<Rightarrow> zk_state" where
  "on_timeout k st =
     (let devId = sk_deviceId (sock_heap st ! k); r = sk_device (sock_heap st ! k)
      in reject_connect ConnectionTimeout k
           (st\<lparr>console := console st @ [ErrConnectionTimeout devId],
               sock_heap := socket_destroy k (sock_heap st),
               dev_heap := set_isConnected False r (dev_heap st)\<rparr>))"

text \<open>
  The \<^verbatim>\<open>once('data')\<close> listeners of \<^verbatim>\<open>sendCommand\<close>: each clears its timer and resolves
  its promise with the chunk.
\<close>

fun resolve_all :: "nat list \<Rightarrow> buffer \<Rightarrow> waiter list \<Rightarrow> waiter list" where
  "resolve_all [] response ws = ws"
| "resolve_all (w # rest) response ws =
     resolve_all rest response
       (ws[w := \<lparr>w_promise = settle (Resolved response) (w_promise (ws ! w)), w_timer = False\<rparr>])"

text \<open>
  A \<^verbatim>\<open>'data'\<close> event on socket \<open>k\<close>: the listener of \<^verbatim>\<open>setupSocketHandlers\<close> first, then the
  \<^verbatim>\<open>once\<close> listeners, which are removed.
\<close>

definition on_data :: "nat \<Rightarrow> buffer \<Rightarrow> clock_reads \<Rightarrow> zk_state \<Rightarrow> zk_state" where
  "on_data k data clk st =
     (let sk = sock_heap st ! k;
          st1 = (if sk_handlers sk then handleDeviceData (sk_deviceId sk) data clk st else st)
      in st1\<lparr>waiters := resolve_all (sk_once sk) data (waiters st1),
             sock_heap := (sock_heap st1)[k := (sock_heap st1 ! k)\<lparr>sk_once := []\<rparr>]\<rparr>)"

text \<open>The \<^verbatim>\<open>'close'\<close> listener of \<^verbatim>\<open>setupSocketHandlers\<close>.\<close>

definition on_close :: "nat \<Rightarrow> zk_state \<Rightarrow> zk_state" where
  "on_close k st =
     (let devId = sk_deviceId (sock_heap st ! k)
      in st\<lparr>console := console st @ [LogDisconnected devId],
            dev_heap := (case map_of (devices st) devId of
                           Some r \<Rightarrow> set_isConnected False r (dev_heap st)
                         | None \<Rightarrow> dev_heap st),
            connections := AList.delete devId (connections st),
            emitted := emitted st @ [DeviceDisconnected devId],
            reconnects := reconnects st @ [devId]\<rparr>)"

text \<open>The callback of the 5000 ms \<^verbatim>\<open>setTimeout\<close> in the close listener, oldest timer first.\<close>

definition reconnect_timer :: "zk_state \<Rightarrow> zk_state" where
  "reconnect_timer st =
     (case reconnects st of
        [] \<Rightarrow> st
      | devId # rest \<Rightarrow>
          (case connectToDevice True devId (st\<lparr>reconnects := rest\<rparr>) of
             Inl e \<Rightarrow> st\<lparr>reconnects := rest, console := console st @ [ErrConsole e]\<rparr>
           | Inr st' \<Rightarrow> st'))"

definition sendCommand :: "string \<Rightarrow> buffer \<Rightarrow> zk_state \<Rightarrow> error + zk_state" where
  "sendCommand devId command st =
     (case map_of (connections st) devId of
        None \<Rightarrow> Inl (DeviceNotConnected devId)
      | Some k \<Rightarrow>
          let sk = sock_heap st ! k
          in Inr (st\<lparr>waiters := waiters st @ [\<lparr>w_promise = Pending, w_timer = True\<rparr>],
                     sock_heap := (sock_heap st)
                       [k := sk\<lparr>sk_once := sk_once sk @ [length (waiters st)],
                                sk_written := (if sk_status sk = Open
                                               then sk_written sk @ [command]
                                               else sk_written sk)\<rparr>]\<rparr>))"

text \<open>The callback of the 5000 ms timer of \<^verbatim>\<open>sendCommand\<close> call \<open>w\<close>.\<close>

definition command_timer :: "nat \<Rightarrow> zk_state \<Rightarrow> zk_state" where
  "command_timer w st =
     st\<lparr>waiters := (waiters st)
          [w := \<lparr>w_promise = settle (Rejected CommandTimeout) (w_promise (waiters st ! w)),
                 w_timer = False\<rparr>]\<rparr>"

text \<open>\<^verbatim>\<open>disconnect(deviceId?)\<close>: an absent or empty id takes the branch for all devices.\<close>

definition disconnect_all :: "zk_state \<Rightarrow> zk_state" where
  "disconnect_all st =
     st\<lparr>sock_heap := fold socket_destroy (map snd (connections st)) (sock_heap st)\<rparr>"

definition disconnect :: "string option \<Rightarrow> zk_state \<Rightarrow> zk_state" where
  "disconnect devId st =
     (case devId of
        None \<Rightarrow> disconnect_all st
      | Some d \<Rightarrow>
          if d \<noteq> []
          then (case map_of (connections st) d of
                  Some k \<Rightarrow> st\<lparr>sock_heap := socket_destroy k (sock_heap st)\<rparr>
                | None \<Rightarrow> st)
          else disconnect_all st)"

section \<open>The service as a transition system\<close>

text \<open>
  Calls of the public methods and the events of the runtime (socket events and timers).
  An event of the runtime is enabled only in the states where Node can deliver it.
\<close>

datatype zk_op =
    AddDevice device_config int
  | ConnectToDevice string
  | SendCommand string buffer
  | Disconnect "string option"
  | SockConnect nat int
  | SockError nat
  | SockTimeout nat
  | SockData nat buffer clock_reads
  | SockClose nat
  | ReconnectTimer
  | CommandTimer nat

definition sock_is :: "sock_status \<Rightarrow> nat \<Rightarrow> zk_state \<Rightarrow> bool" where
  "sock_is s k st = (k < length (sock_heap st) \<and> sk_status (sock_heap st ! k) = s)"

fun enabled :: "zk_op \<Rightarrow> zk_state \<Rightarrow> bool" where
  "enabled (SockConnect k now) st = sock_is Connecting k st"
| "enabled (SockError k) st = (sock_is Connecting k st \<or> sock_is Open k st)"
| "enabled (SockTimeout k) st = (sock_is Connecting k st \<or> sock_is Open k st)"
| "enabled (SockData k data clk) st = sock_is Open k st"
| "enabled (SockClose k) st = (sock_is Open k st \<or> sock_is Destroyed k st)"
| "enabled ReconnectTimer st = (reconnects st \<noteq> [])"
| "enabled (CommandTimer w) st = (w < length (waiters st) \<and> w_timer (waiters st ! w))"
| "enabled _ st = True"

definition set_status :: "sock_status \<Rightarrow> nat \<Rightarrow> zk_state \<Rightarrow> zk_state" where
  "set_status s k st = st\<lparr>sock_heap := (sock_heap st)[k := (sock_heap st ! k)\<lparr>sk_status := s\<rparr>]\<rparr>"

text \<open>A call that throws leaves the state as it was.\<close>

definition or_unchanged :: "zk_state \<Rightarrow> error + zk_state \<Rightarrow> zk_state" where
  "or_unchanged st r = (case r of Inl e \<Rightarrow> st | Inr st' \<Rightarrow> st')"

fun step :: "zk_op \<Rightarrow> zk_state \<Rightarrow> zk_state" where
  "step (AddDevice config now) st = or_unchanged st (addDevice config now st)"
| "step (ConnectToDevice devId) st = or_unchanged st (connectToDevice False devId st)"
| "step (SendCommand devId command) st = or_unchanged st (sendCommand devId command st)"
| "step (Disconnect devId) st = disconnect devId st"
| "step (SockConnect k now) st = on_connect k now (set_status Open k st)"
| "step (SockError k) st = on_error k (set_status Destroyed k st)"
| "step (SockTimeout k) st = on_timeout k st"
| "step (SockData k data clk) st = on_data k data clk st"
| "step (SockClose k) st =
     (if sk_handlers (sock_heap st ! k) then on_close k (set_status Closed k st)
      else set_status Closed k st)"
| "step ReconnectTimer st = reconnect_timer st"
| "step (CommandTimer w) st = command_timer w st"

fun exec :: "zk_op list \<Rightarrow> zk_state \<Rightarrow> zk_state option" where
  "exec [] st = Some st"
| "exec (ev # evs) st = (if enabled ev st then exec evs (step ev st) else None)"

text \<open>The sockets of a device that are connected, and so deliver its data.\<close>

definition live_sockets :: "string \<Rightarrow> zk_state \<Rightarrow> nat list" where
  "live_sockets devId st =
     filter (\<lambda>k. sk_deviceId (sock_heap st ! k) = devId \<and> sk_status (sock_heap st ! k) = Open)
       [0..<length (sock_heap st)]"

section \<open>DatabaseService\<close>

datatype att_status = Success | Duplicate | Unauthorized

text \<open>Of an employee row, the columns that the modelled code reads.\<close>

record Employee =
  emp_employeeId :: string
  emp_name :: string

text \<open>An attendance row without and with the columns the database service adds.\<close>

record NewAttendance =
  employeeId :: string
  employeeName :: string
  att_timestamp :: string
  att_type :: attendance_type
  att_method :: verify_method
  att_deviceId :: string
  location :: string
  status :: att_status

record StoredAttendance =
  att_id :: string
  att_record :: NewAttendance
  createdAt :: int

text \<open>
  \<open>db_open\<close> is \<^verbatim>\<open>this.db !== null\<close>. Whether a statement fails is the environment's
  choice: \<open>sql_faults\<close> holds it for the statements to come, one entry per statement
  executed (\<open>True\<close>: the statement fails; no entry: it succeeds).
\<close>

record db_state =
  db_open :: bool
  employees :: "Employee list"
  attendance_records :: "StoredAttendance list"
  sql_faults :: "bool list"

definition next_fault :: "db_state \<Rightarrow> bool \<times> db_state" where
  "next_fault d = (case sql_faults d of [] \<Rightarrow> (False, d) | f # fs \<Rightarrow> (f, d\<lparr>sql_faults := fs\<rparr>))"

definition getEmployee :: "string \<Rightarrow> db_state \<Rightarrow> (error + Employee option) \<times> db_state" where
  "getEmployee empId d =
     (if \<not> db_open d then (Inl DatabaseNotInitialized, d)
      else case next_fault d of
             (True, d') \<Rightarrow> (Inl SqlError, d')
           | (False, d') \<Rightarrow> (Inr (find (\<lambda>e. emp_employeeId e = empId) (employees d')), d'))"

text \<open>\<open>newId\<close> is what \<^verbatim>\<open>generateId()\<close> returns and \<open>now\<close> what \<^verbatim>\<open>new Date()\<close> returns.\<close>

definition createAttendanceRecord ::
  "NewAttendance \<Rightarrow> string \<Rightarrow> int \<Rightarrow> db_state \<Rightarrow> (error + StoredAttendance) \<times> db_state" where
  "createAttendanceRecord record newId now d =
     (if \<not> db_open d then (Inl DatabaseNotInitialized, d)
      else case next_fault d of
             (True, d') \<Rightarrow> (Inl SqlError, d')
           | (False, d') \<Rightarrow>
               (let row = \<lparr>att_id = newId, att_record = record, createdAt = now\<rparr>
                in (Inr row, d'\<lparr>attendance_records := attendance_records d' @ [row]\<rparr>)))"

section \<open>RealtimeService\<close>

datatype ready_state = CONNECTING | OPEN | CLOSING | CLOSED

datatype msg_type = MsgAttendance | MsgDeviceStatus | MsgEmployeeUpdate | MsgSystemAlert

datatype alert_level = Info | Warning | ErrorLevel

text \<open>
  The \<^verbatim>\<open>data\<close> of a message has the type \<^verbatim>\<open>any\<close>: the values that the modelled callers
  pass, and \<open>BigIntData\<close> for a value that holds a BigInt, which \<^verbatim>\<open>JSON.stringify\<close> refuses.
\<close>

datatype msg_data =
    AttendanceData NewAttendance
  | ConnectedData string
  | SystemAlertData string alert_level int
  | BigIntData int

record RealtimeMessage =
  mtype :: msg_type
  mdata :: msg_data
  mtimestamp :: int

text \<open>
  \<open>clients\<close> is the \<^verbatim>\<open>Set<WebSocket>\<close> in insertion order, a WebSocket being named by a
  number; \<open>readyState\<close> is the state of each WebSocket and \<open>sent\<close> what \<^verbatim>\<open>send\<close> was given
  for it, in order.
\<close>

record rt_state =
  clients :: "nat list"
  readyState :: "nat \<Rightarrow> ready_state"
  sent :: "nat \<Rightarrow> string list"

text \<open>\<^verbatim>\<open>WebSocket.send\<close> of the ws library, taken to throw on a socket that is not open.\<close>

definition ws_send :: "nat \<Rightarrow> string \<Rightarrow> rt_state \<Rightarrow> error option \<times> rt_state" where
  "ws_send c s st =
     (if readyState st c = OPEN then (None, st\<lparr>sent := (sent st)(c := sent st c @ [s])\<rparr>)
      else (Some WebSocketNotOpen, st))"

definition addToSet :: "nat \<Rightarrow> nat list \<Rightarrow> nat list" where
  "addToSet c cs = (if c \<in> set cs then cs else cs @ [c])"

definition removeClient :: "nat \<Rightarrow> rt_state \<Rightarrow> rt_state" where
  "removeClient c st = st\<lparr>clients := removeAll c (clients st)\<rparr>"

text \<open>
  The body of \<^verbatim>\<open>clients.forEach\<close> over the members still to visit. A member is deleted
  only while it is the one visited, so the members to visit are those of the set at the
  call.
\<close>

fun broadcast_each :: "string \<Rightarrow> nat list \<Rightarrow> rt_state \<Rightarrow> error option \<times> rt_state" where
  "broadcast_each messageStr [] st = (None, st)"
| "broadcast_each messageStr (client # rest) st =
     (if readyState st client = OPEN
      then (case ws_send client messageStr st of
              (Some e, st') \<Rightarrow> (Some e, st')
            | (None, st') \<Rightarrow> broadcast_each messageStr rest st')
      else broadcast_each messageStr rest (removeClient client st))"

text \<open>
  \<^verbatim>\<open>JSON.stringify\<close>: a TypeError for a value that holds a BigInt; for the other messages
  the text, which \<open>stringify\<close> stands for.
\<close>

definition JSON_stringify :: "(RealtimeMessage \<Rightarrow> string) \<Rightarrow> RealtimeMessage \<Rightarrow> error + string" where
  "JSON_stringify stringify message =
     (case mdata message of
        BigIntData n \<Rightarrow> Inl TypeError
      | _ \<Rightarrow> Inr (stringify message))"

text \<open>The message is serialised before the loop and outside any \<^verbatim>\<open>try\<close>.\<close>

definition broadcast ::
  "(RealtimeMessage \<Rightarrow> string) \<Rightarrow> RealtimeMessage \<Rightarrow> rt_state \<Rightarrow> error option \<times> rt_state" where
  "broadcast stringify message st =
     (case JSON_stringify stringify message of
        Inl e \<Rightarrow> (Some e, st)
      | Inr messageStr \<Rightarrow> broadcast_each messageStr (clients st) st)"

definition sendToClient ::
  "(RealtimeMessage \<Rightarrow> string) \<Rightarrow> nat \<Rightarrow> RealtimeMessage \<Rightarrow> rt_state \<Rightarrow> error option \<times> rt_state" where
  "sendToClient stringify client message st =
     (if readyState st client = OPEN
      then (case JSON_stringify stringify message of
              Inl e \<Rightarrow> (Some e, st)
            | Inr messageStr \<Rightarrow> ws_send client messageStr st)
      else (None, st))"

definition addClient ::
  "(RealtimeMessage \<Rightarrow> string) \<Rightarrow> nat \<Rightarrow> int \<Rightarrow> rt_state \<Rightarrow> error option \<times> rt_state" where
  "addClient stringify ws now st =
     sendToClient stringify ws
       \<lparr>mtype = MsgSystemAlert, mdata = ConnectedData ''Connected to real-time service'',
        mtimestamp = now\<rparr>
       (st\<lparr>clients := addToSet ws (clients st)\<rparr>)"

definition broadcastAttendanceRecord ::
  "(RealtimeMessage \<Rightarrow> string) \<Rightarrow> NewAttendance \<Rightarrow> int \<Rightarrow> rt_state \<Rightarrow> error option \<times> rt_state" where
  "broadcastAttendanceRecord stringify record now st =
     broadcast stringify \<lparr>mtype = MsgAttendance, mdata = AttendanceData record, mtimestamp = now\<rparr> st"

definition broadcastSystemAlert ::
  "(RealtimeMessage \<Rightarrow> string) \<Rightarrow> string \<Rightarrow> alert_level \<Rightarrow> int \<Rightarrow> rt_state \<Rightarrow> error option \<times> rt_state" where
  "broadcastSystemAlert stringify message level now st =
     broadcast stringify
       \<lparr>mtype = MsgSystemAlert, mdata = SystemAlertData message level now, mtimestamp = now\<rparr> st"

section \<open>AttendanceController: the listener for attendance records\<close>

datatype app_log = ErrProcessingAttendance error | LogProcessed NewAttendance

record app_state =
  zk :: zk_state
  db :: db_state
  rt :: rt_state
  app_console :: "app_log list"

text \<open>What the environment hands one run of the listener: a generated id and two clock reads.\<close>

record listener_env =
  new_id :: string
  created_now :: int
  broadcast_now :: int

definition getDeviceLocation :: "string \<Rightarrow> zk_state \<Rightarrow> string" where
  "getDeviceLocation devId z =
     (case map_of (devices z) devId of
        Some r \<Rightarrow> if ip (dev_heap z ! r) \<noteq> [] then ip (dev_heap z ! r) else ''Unknown Location''
      | None \<Rightarrow> ''Unknown Location'')"

definition employee_name :: "Employee option \<Rightarrow> string" where
  "employee_name employee =
     (case employee of
        Some e \<Rightarrow> if emp_name e \<noteq> [] then emp_name e else ''Unknown Employee''
      | None \<Rightarrow> ''Unknown Employee'')"

text \<open>
  The listener that \<^verbatim>\<open>setupEventListeners\<close> registers for \<^verbatim>\<open>'attendanceRecord'\<close>, run to
  its end. \<open>toISOString\<close> stands for \<^verbatim>\<open>Date.prototype.toISOString\<close>.
\<close>

definition onAttendanceRecord ::
  "(int \<Rightarrow> string) \<Rightarrow> (RealtimeMessage \<Rightarrow> string) \<Rightarrow> listener_env \<Rightarrow> AttendanceRecord
     \<Rightarrow> app_state \<Rightarrow> app_state" where
  "onAttendanceRecord toISOString stringify env record app =
     (case getEmployee (userId record) (db app) of
        (Inl e, d1) \<Rightarrow>
          app\<lparr>db := d1, app_console := app_console app @ [ErrProcessingAttendance e]\<rparr>
      | (Inr employee, d1) \<Rightarrow>
          (let attendanceRecord =
                 \<lparr>employeeId = userId record,
                  employeeName = employee_name employee,
                  att_timestamp = toISOString (timestamp record),
                  att_type = rec_type record,
                  att_method = rec_method record,
                  att_deviceId = deviceId record,
                  location = getDeviceLocation (deviceId record) (zk app),
                  status = Success\<rparr>
           in case createAttendanceRecord attendanceRecord (new_id env) (created_now env) d1 of
                (Inl e, d2) \<Rightarrow>
                  app\<lparr>db := d2, app_console := app_console app @ [ErrProcessingAttendance e]\<rparr>
              | (Inr row, d2) \<Rightarrow>
                  (case broadcastAttendanceRecord stringify attendanceRecord (broadcast_now env)
                          (rt app) of
                     (Some e, r') \<Rightarrow>
                       app\<lparr>db := d2, rt := r',
                           app_console := app_console app @ [ErrProcessingAttendance e]\<rparr>
                   | (None, r') \<Rightarrow>
                       app\<lparr>db := d2, rt := r',
                           app_console := app_console app @ [LogProcessed attendanceRecord]\<rparr>)))"

text \<open>\<^verbatim>\<open>emit\<close> of the service, as far as this listener goes.\<close>

definition deliver ::
  "(int \<Rightarrow> string) \<Rightarrow> (RealtimeMessage \<Rightarrow> string) \<Rightarrow> listener_env \<Rightarrow> zk_event
     \<Rightarrow> app_state \<Rightarrow> app_state" where
  "deliver toISOString stringify env ev app =
     (case ev of
        AttendanceRecordEv record \<Rightarrow> onAttendanceRecord toISOString stringify env record app
      | _ \<Rightarrow> app)"

text \<open>
  A \<^verbatim>\<open>'data'\<close> event with the server's listeners attached: the service handles the chunk,
  and each event it emitted on the way goes to the controller's listener.
\<close>

definition app_on_data ::
  "(int \<Rightarrow> string) \<Rightarrow> (RealtimeMessage \<Rightarrow> string) \<Rightarrow> listener_env \<Rightarrow> nat \<Rightarrow> buffer
     \<Rightarrow> clock_reads \<Rightarrow> app_state \<Rightarrow> app_state" where
  "app_on_data toISOString stringify env k data clk app =
     (let z = on_data k data clk (zk app)
      in fold (deliver toISOString stringify env)
           (drop (length (emitted (zk app))) (emitted z)) (app\<lparr>zk := z\<rparr>))"

section \<open>EmployeeController: the import of attendance rows\<close>

record attendance_filters =
  f_employeeId :: string
  f_startDate :: string
  f_endDate :: string

text \<open>
  \<^verbatim>\<open>getAttendanceRecords\<close> with the three filters its caller here gives. A filter that is
  the empty string is not applied. SQLite compares the text of the timestamps, byte
  by byte. The rows are given in table order: the caller asks only whether some row
  matches.
\<close>

fun text_le :: "string \<Rightarrow> string \<Rightarrow> bool" where
  "text_le [] ys = True"
| "text_le (x # xs) [] = False"
| "text_le (x # xs) (y # ys) =
     (of_char x < (of_char y :: nat) \<or> (of_char x = (of_char y :: nat) \<and> text_le xs ys))"

definition getAttendanceRecords ::
  "attendance_filters \<Rightarrow> db_state \<Rightarrow> (error + StoredAttendance list) \<times> db_state" where
  "getAttendanceRecords filters d =
     (if \<not> db_open d then (Inl DatabaseNotInitialized, d)
      else case next_fault d of
             (True, d') \<Rightarrow> (Inl SqlError, d')
           | (False, d') \<Rightarrow>
               (Inr (filter (\<lambda>row.
                       (f_employeeId filters = [] \<or>
                          employeeId (att_record row) = f_employeeId filters) \<and>
                       (f_startDate filters = [] \<or>
                          text_le (f_startDate filters) (att_timestamp (att_record row))) \<and>
                       (f_endDate filters = [] \<or>
                          text_le (att_timestamp (att_record row)) (f_endDate filters)))
                     (attendance_records d')), d'))"

record import_results =
  imported :: nat
  duplicates :: nat
  import_errors :: "error list"

text \<open>
  \<open>dateParse\<close> stands for \<^verbatim>\<open>new Date(text).getTime()\<close>, \<open>None\<close> for \<^verbatim>\<open>NaN\<close>: a comparison
  with \<^verbatim>\<open>NaN\<close> is false.
\<close>

definition isDuplicate ::
  "(string \<Rightarrow> int option) \<Rightarrow> NewAttendance \<Rightarrow> StoredAttendance list \<Rightarrow> bool" where
  "isDuplicate dateParse attData existingRecords =
     list_ex (\<lambda>row.
        case (dateParse (att_timestamp (att_record row)), dateParse (att_timestamp attData)) of
          (Some a, Some b) \<Rightarrow> \<bar>a - b\<bar> < 60000
        | _ \<Rightarrow> False) existingRecords"

text \<open>
  The loop of \<^verbatim>\<open>importAttendance\<close> over the parsed rows, each with the id and the clock
  read that \<^verbatim>\<open>createAttendanceRecord\<close> draws for it.
\<close>

fun importAttendance ::
  "(string \<Rightarrow> int option) \<Rightarrow> (NewAttendance \<times> string \<times> int) list \<Rightarrow> import_results \<times> db_state
     \<Rightarrow> import_results \<times> db_state" where
  "importAttendance dateParse [] (results, d) = (results, d)"
| "importAttendance dateParse ((attData, newId, now) # rest) (results, d) =
     importAttendance dateParse rest
       (case getAttendanceRecords
               \<lparr>f_employeeId = employeeId attData, f_startDate = att_timestamp attData,
                f_endDate = att_timestamp attData\<rparr> d of
          (Inl e, d1) \<Rightarrow> (results\<lparr>import_errors := import_errors results @ [e]\<rparr>, d1)
        | (Inr existingRecords, d1) \<Rightarrow>
            if isDuplicate dateParse attData existingRecords
            then (results\<lparr>duplicates := duplicates results + 1\<rparr>, d1)
            else (case createAttendanceRecord attData newId now d1 of
                    (Inl e, d2) \<Rightarrow> (results\<lparr>import_errors := import_errors results @ [e]\<rparr>, d2)
                  | (Inr row, d2) \<Rightarrow> (results\<lparr>imported := imported results + 1\<rparr>, d2)))"

section \<open>The data-event loop and sample inputs\<close>

text \<open>Successive \<^verbatim>\<open>'data'\<close> events on socket \<open>k\<close>, one per chunk.\<close>

definition data_events :: "nat \<Rightarrow> (buffer \<times> clock_reads) list \<Rightarrow> zk_op list" where
  "data_events k chunks = map (\<lambda>(data, clk). SockData k data clk) chunks"

text \<open>The record that \<^verbatim>\<open>handleDeviceData\<close> emits for a chunk that parses.\<close>

definition emitted_record :: "string \<Rightarrow> clock_reads \<Rightarrow> AttendanceRecord" where
  "emitted_record devId clk =
     \<lparr>userId = ''12345'', timestamp = parse_now clk,
      rec_type = (if getHours (tz_minutes clk) (handle_now clk) < 12 then CheckIn
                  else if getHours (tz_minutes clk) (handle_now clk) > 17 then CheckOut
                  else BreakStart),
      rec_method = Fingerprint, deviceId = devId\<rparr>"

definition zk001 :: device_config where
  "zk001 = \<lparr>cfg_id = ''ZK001'', cfg_ip = ''10.0.0.5'', cfg_port = 4370, cfg_password = None\<rparr>"

definition frame8 :: buffer where
  "frame8 = [13, 0, 0, 0, 1, 0, 2, 0]"

text \<open>08:30:00Z on the first day of the epoch, read on a host at UTC and on one at UTC+10.\<close>

definition at_0830Z :: clock_reads where
  "at_0830Z = \<lparr>parse_now = 30600000, handle_now = 30600000, tz_minutes = 0\<rparr>"

definition at_0830Z_plus10 :: clock_reads where
  "at_0830Z_plus10 = \<lparr>parse_now = 30600000, handle_now = 30600000, tz_minutes = 600\<rparr>"

text \<open>Ten seconds later.\<close>

definition at_083010Z :: clock_reads where
  "at_083010Z = \<lparr>parse_now = 30610000, handle_now = 30610000, tz_minutes = 0\<rparr>"

text \<open>The service with device ZK001 added and its socket 0 connected.\<close>

definition zk_connected :: zk_state where
  "zk_connected = step (SockConnect 0 0) (step (AddDevice zk001 0) zk_init)"

text \<open>
  The server with that device, an open database that knows employee 12345, and one
  subscriber, WebSocket 7, which is open.
\<close>

definition app_sample :: "bool list \<Rightarrow> app_state" where
  "app_sample faults =
     \<lparr>zk = zk_connected,
      db = \<lparr>db_open = True, employees = [\<lparr>emp_employeeId = ''12345'', emp_name = ''Alice''\<rparr>],
            attendance_records = [], sql_faults = faults\<rparr>,
      rt = \<lparr>clients = [7], readyState = (\<lambda>c. OPEN), sent = (\<lambda>c. [])\<rparr>,
      app_console = []\<rparr>"

definition env1 :: listener_env where
  "env1 = \<lparr>new_id = ''a1'', created_now = 30600001, broadcast_now = 30600002\<rparr>"

definition env2 :: listener_env where
  "env2 = \<lparr>new_id = ''a2'', created_now = 30610001, broadcast_now = 30610002\<rparr>"

text \<open>The two chunks, ten seconds apart, on the connected socket of ZK001.\<close>

definition two_notifications :: "(int \<Rightarrow> string) \<Rightarrow> (RealtimeMessage \<Rightarrow> string) \<Rightarrow> app_state" where
  "two_notifications toISOString stringify =
     app_on_data toISOString stringify env2 0 frame8 at_083010Z
       (app_on_data toISOString stringify env1 0 frame8 at_0830Z (app_sample []))"

text \<open>Three subscribers, the second of them closed, and a message.\<close>

definition three_subscribers :: rt_state where
  "three_subscribers =
     \<lparr>clients = [1, 2, 3], readyState = (\<lambda>c. if c = 2 then CLOSED else OPEN), sent = (\<lambda>c. [])\<rparr>"

definition hello_message :: RealtimeMessage where
  "hello_message = \<lparr>mtype = MsgSystemAlert, mdata = ConnectedData ''hello'', mtimestamp = 0\<rparr>"

text \<open>A message whose data is the BigInt 10.\<close>

definition bigint_message :: RealtimeMessage where
  "bigint_message = \<lparr>mtype = MsgSystemAlert, mdata = BigIntData 10, mtimestamp = 0\<rparr>"

text \<open>The promises of the \<^verbatim>\<open>sendCommand\<close> calls so far, in call order.\<close>

definition outcomes :: "zk_state \<Rightarrow> buffer promise list" where
  "outcomes st = map w_promise (waiters st)"

text \<open>The connected service after \<^verbatim>\<open>sendCommand('ZK001', <01 02>)\<close>.\<close>

definition zk_pending :: zk_state where
  "zk_pending = step (SendCommand ''ZK001'' [1, 2]) zk_connected"

text \<open>Stand-ins for \<^verbatim>\<open>toISOString\<close> and \<^verbatim>\<open>JSON.stringify\<close> where a concrete run needs them.\<close>

definition stub_toISOString :: "int \<Rightarrow> string" where
  "stub_toISOString t = ''T''"

definition stub_stringify :: "RealtimeMessage \<Rightarrow> string" where
  "stub_stringify m = ''{}''"

text \<open>
  What holds of the connections map in every state the service reaches: no device id
  is a key twice, and the socket stored for a device was created for that device and
  has the listeners of \<^verbatim>\<open>setupSocketHandlers\<close>.
\<close>

definition conn_inv :: "zk_state \<Rightarrow> bool" where
  "conn_inv st =
     (distinct (map fst (connections st)) \<and>
      (\<forall>d k. map_of (connections st) d = Some k \<longrightarrow>
         k < length (sock_heap st) \<and> sk_deviceId (sock_heap st ! k) = d \<and>
         sk_handlers (sock_heap st ! k)))"

text \<open>
  The events that settle the promise of \<^verbatim>\<open>sendCommand\<close> call \<open>w\<close> made on socket \<open>k\<close>: a chunk
  on that socket and the timer of that call.
\<close>

fun answers :: "nat \<Rightarrow> nat \<Rightarrow> zk_op \<Rightarrow> bool" where
  "answers k w (SockData j data clk) = (j = k)"
| "answers k w (CommandTimer v) = (v = w)"
| "answers k w ev = False"

text \<open>Every \<^verbatim>\<open>once('data')\<close> listener on a socket belongs to a call that has been made.\<close>

definition once_inv :: "zk_state \<Rightarrow> bool" where
  "once_inv st =
     (\<forall>j v. j < length (sock_heap st) \<and> v \<in> set (sk_once (sock_heap st ! j)) \<longrightarrow>
        v < length (waiters st))"

text \<open>
  Call \<open>w\<close> is waiting on socket \<open>k\<close> of device \<open>devId\<close>: its promise is pending, its timer
  armed, and its listener is registered on that socket and on no other.
\<close>

definition awaiting :: "string \<Rightarrow> nat \<Rightarrow> nat \<Rightarrow> zk_state \<Rightarrow> bool" where
  "awaiting devId k w st =
     (k < length (sock_heap st) \<and> sk_handlers (sock_heap st ! k) \<and>
      sk_deviceId (sock_heap st ! k) = devId \<and>
      w < length (waiters st) \<and> w_promise (waiters st ! w) = Pending \<and> w_timer (waiters st ! w) \<and>
      w \<in> set (sk_once (sock_heap st ! k)) \<and>
      (\<forall>j. j < length (sock_heap st) \<and> j \<noteq> k \<longrightarrow> w \<notin> set (sk_once (sock_heap st ! j))))"

text \<open>
  After the command to ZK001: a second socket for the device is opened and delivers a
  chunk. None of these events is a chunk on socket 0 or the timer of the command.
\<close>

definition quiet_run :: "zk_op list" where
  "quiet_run = [ConnectToDevice ''ZK001'', SockConnect 1 1, SockData 1 frame8 at_0830Z]"

definition zk_quiet :: zk_state where
  "zk_quiet = step (SockData 1 frame8 at_0830Z)
                (step (SockConnect 1 1) (step (ConnectToDevice ''ZK001'') zk_pending))"

section \<open>Properties\<close>

subsection \<open>Parsing, classification and what a step emits\<close>

lemma parseZKData_ok:
  "8 \<le> length data \<Longrightarrow> parseZKData data now =
     Inr \<lparr>p_type = ''attendance'', p_userId = ''12345'', p_timestamp = now,
          p_method = Fingerprint, verifyMode = 1\<rparr>"
  by (simp add: parseZKData_def readUInt16LE_def)

lemma parseZKData_short: "length data < 8 \<Longrightarrow> parseZKData data now = Inl InvalidDataLength"
  by (simp add: parseZKData_def)

lemma determineAttendanceType_cases:
  "determineAttendanceType tz now data =
     (if getHours tz now < 12 then CheckIn else if getHours tz now > 17 then CheckOut else BreakStart)"
  by (simp add: determineAttendanceType_def Let_def)

lemma handleDeviceData_ok:
  "8 \<le> length data \<Longrightarrow> handleDeviceData devId data clk st =
     st\<lparr>emitted := emitted st @ [AttendanceRecordEv (emitted_record devId clk)]\<rparr>"
  by (simp add: handleDeviceData_def parseZKData_ok emitted_record_def determineAttendanceType_cases)

lemma handleDeviceData_short:
  "length data < 8 \<Longrightarrow> handleDeviceData devId data clk st =
     st\<lparr>console := console st @ [ErrParsing devId InvalidDataLength]\<rparr>"
  by (simp add: handleDeviceData_def parseZKData_short)

lemma emitted_record_type: "rec_type (emitted_record devId clk) \<noteq> BreakEnd"
  by (simp add: emitted_record_def)

lemma handleDeviceData_emitted:
  "emitted (handleDeviceData devId data clk st) =
     emitted st @ (if 8 \<le> length data then [AttendanceRecordEv (emitted_record devId clk)] else [])"
  by (cases "8 \<le> length data") (simp_all add: handleDeviceData_ok handleDeviceData_short)

lemma reject_connect_emitted: "emitted (reject_connect e k st) = emitted st"
  by (simp add: reject_connect_def Let_def)

lemma step_emitted:
  "\<exists>new. emitted (step ev st) = emitted st @ new \<and>
     (\<forall>r. AttendanceRecordEv r \<in> set new \<longrightarrow> rec_type r \<noteq> BreakEnd)"
proof (cases ev)
  case (SockData k data clk)
  then show ?thesis
    by (simp add: on_data_def Let_def handleDeviceData_emitted emitted_record_type)
next
  case (AddDevice config now)
  then show ?thesis
    by (simp add: addDevice_def connectToDevice_def or_unchanged_def Let_def split: option.splits)
next
  case (ConnectToDevice d)
  then show ?thesis
    by (simp add: connectToDevice_def or_unchanged_def split: option.splits)
next
  case (SendCommand d c)
  then show ?thesis
    by (simp add: sendCommand_def or_unchanged_def Let_def split: option.splits)
next
  case (Disconnect d)
  then show ?thesis
    by (simp add: disconnect_def disconnect_all_def split: option.splits)
next
  case (SockConnect k now)
  then show ?thesis by (simp add: on_connect_def set_status_def Let_def)
next
  case (SockError k)
  then show ?thesis by (simp add: on_error_def set_status_def Let_def reject_connect_emitted)
next
  case (SockTimeout k)
  then show ?thesis by (simp add: on_timeout_def Let_def reject_connect_emitted)
next
  case (SockClose k)
  then show ?thesis by (simp add: on_close_def set_status_def Let_def)
next
  case ReconnectTimer
  then show ?thesis
    by (simp add: reconnect_timer_def connectToDevice_def split: list.splits option.splits)
next
  case (CommandTimer w)
  then show ?thesis by (simp add: command_timer_def)
qed

lemma exec_emitted:
  "exec evs st = Some st' \<Longrightarrow>
   \<exists>new. emitted st' = emitted st @ new \<and>
     (\<forall>r. AttendanceRecordEv r \<in> set new \<longrightarrow> rec_type r \<noteq> BreakEnd)"
proof (induction evs arbitrary: st)
  case Nil
  then show ?case by simp
next
  case (Cons ev evs)
  from Cons.prems have en: "enabled ev st" and ex: "exec evs (step ev st) = Some st'"
    by (auto split: if_splits)
  from Cons.IH [OF ex] obtain new2 where
    n2: "emitted st' = emitted (step ev st) @ new2"
        "\<forall>r. AttendanceRecordEv r \<in> set new2 \<longrightarrow> rec_type r \<noteq> BreakEnd" by blast
  from step_emitted [of ev st] obtain new1 where
    n1: "emitted (step ev st) = emitted st @ new1"
        "\<forall>r. AttendanceRecordEv r \<in> set new1 \<longrightarrow> rec_type r \<noteq> BreakEnd" by blast
  have "emitted st' = emitted st @ (new1 @ new2)" using n1 n2 by simp
  moreover have "\<forall>r. AttendanceRecordEv r \<in> set (new1 @ new2) \<longrightarrow> rec_type r \<noteq> BreakEnd"
    using n1 n2 by auto
  ultimately show ?case by blast
qed

text \<open>
  Claim C10. The classifier returns check-in, check-out or break-start, never break-end,
  and no attendance record that the service emits, in any state it reaches from the
  initial one, has the type break-end.
\<close>

theorem live_path_never_break_end:
  "determineAttendanceType tz now data \<noteq> BreakEnd \<and>
   (exec evs zk_init = Some st \<longrightarrow> AttendanceRecordEv r \<in> set (emitted st) \<longrightarrow>
      rec_type r \<noteq> BreakEnd)"
proof -
  have "determineAttendanceType tz now data \<noteq> BreakEnd"
    by (simp add: determineAttendanceType_cases)
  moreover have "rec_type r \<noteq> BreakEnd"
    if "exec evs zk_init = Some st" and "AttendanceRecordEv r \<in> set (emitted st)"
    using exec_emitted [OF that(1)] that(2) by (auto simp: zk_init_def)
  ultimately show ?thesis by blast
qed

subsection \<open>The sample states\<close>

lemma zk_connected_eq:
  "zk_connected =
   \<lparr>dev_heap = [\<lparr>dev_id = ''ZK001'', ip = ''10.0.0.5'', port = 4370, password = None,
                 isConnected = True, lastSeen = 0\<rparr>],
    devices = [(''ZK001'', 0)],
    sock_heap = [\<lparr>sk_deviceId = ''ZK001'', sk_device = 0, sk_status = Open, sk_handlers = True,
                  sk_once = [], sk_written = [], sk_promise = Resolved True, sk_caught = False\<rparr>],
    connections = [(''ZK001'', 0)], waiters = [], reconnects = [],
    emitted = [DeviceConnected ''ZK001''], console = [LogConnected ''ZK001'']\<rparr>"
  by (simp add: zk_connected_def zk_init_def zk001_def addDevice_def connectToDevice_def
      or_unchanged_def new_socket_def on_connect_def set_status_def set_lastSeen_def
      set_isConnected_def setupSocketHandlers_def resolve_connect_def settle_def Let_def)

lemma exec_connect:
  "exec (AddDevice zk001 0 # SockConnect 0 0 # evs) zk_init = exec evs zk_connected"
  by (simp add: zk_connected_def zk_init_def zk001_def addDevice_def connectToDevice_def
      or_unchanged_def new_socket_def sock_is_def Let_def)

text \<open>
  Claim C10 at a concrete run: device ZK001 is added, its socket connects and delivers
  an eight-byte chunk at 08:30:00Z.
\<close>

theorem live_path_never_break_end_witness:
  "exec [AddDevice zk001 0, SockConnect 0 0, SockData 0 frame8 at_0830Z] zk_init \<noteq> None \<and>
   AttendanceRecordEv (emitted_record ''ZK001'' at_0830Z)
     \<in> set (emitted (the (exec [AddDevice zk001 0, SockConnect 0 0, SockData 0 frame8 at_0830Z] zk_init))) \<and>
   rec_type (emitted_record ''ZK001'' at_0830Z) \<noteq> BreakEnd"
proof -
  have e: "exec [AddDevice zk001 0, SockConnect 0 0, SockData 0 frame8 at_0830Z] zk_init
        = Some (on_data 0 frame8 at_0830Z zk_connected)"
    by (subst exec_connect) (simp add: zk_connected_eq sock_is_def)
  have m: "AttendanceRecordEv (emitted_record ''ZK001'' at_0830Z)
       \<in> set (emitted (on_data 0 frame8 at_0830Z zk_connected))"
    by (simp add: on_data_def Let_def handleDeviceData_emitted frame8_def zk_connected_eq)
  from live_path_never_break_end
         [where evs = "[AddDevice zk001 0, SockConnect 0 0, SockData 0 frame8 at_0830Z]"
            and st = "on_data 0 frame8 at_0830Z zk_connected"
            and r = "emitted_record ''ZK001'' at_0830Z"] e m
  show ?thesis by simp
qed

text \<open>
  Claim C6, as amended. For a chunk of at least eight bytes the record emitted has the
  kind given by the thresholds (before 12 check-in, after 17 check-out, else
  break-start) on the hour of the host's local clock when the chunk is handled. The
  record's own timestamp and the parsed notification are not consulted: the classifier
  gives the same kind for any two parsed notifications.
\<close>

theorem kind_from_host_clock:
  "8 \<le> length data \<Longrightarrow>
   handleDeviceData devId data clk st =
     st\<lparr>emitted := emitted st @
        [AttendanceRecordEv
           \<lparr>userId = ''12345'', timestamp = parse_now clk,
            rec_type = (if getHours (tz_minutes clk) (handle_now clk) < 12 then CheckIn
                        else if 17 < getHours (tz_minutes clk) (handle_now clk) then CheckOut
                        else BreakStart),
            rec_method = Fingerprint, deviceId = devId\<rparr>]\<rparr> \<and>
   determineAttendanceType tz now parsed1 = determineAttendanceType tz now parsed2"
  by (simp add: handleDeviceData_ok emitted_record_def determineAttendanceType_cases)

text \<open>
  Claim C6 as amended, at a concrete input: on a host at UTC that handles the chunk at
  08:30:00Z the kind is check-in.
\<close>

theorem kind_from_host_clock_witness:
  "8 \<le> length frame8 \<and>
   handleDeviceData ''ZK001'' frame8 at_0830Z zk_init =
     zk_init\<lparr>emitted :=
        [AttendanceRecordEv
           \<lparr>userId = ''12345'', timestamp = 30600000, rec_type = CheckIn,
            rec_method = Fingerprint, deviceId = ''ZK001''\<rparr>]\<rparr>"
proof -
  have len: "8 \<le> length frame8" by (simp add: frame8_def)
  have h: "getHours 0 30600000 = 8" by (simp add: getHours_def)
  from kind_from_host_clock [OF len, of "''ZK001''" at_0830Z zk_init] len h
  show ?thesis by (simp add: at_0830Z_def zk_init_def)
qed

text \<open>
  Claim C6 as stated fails. A notification stamped 08:30:00Z (hour 8) handled on a host
  at UTC+10 is a check-out, and one stamped 11:59:59.999Z (hour 11) whose
  classification reads the clock one millisecond later is a break-start.
\<close>

theorem kind_from_event_timestamp_counterexample:
  "emitted (handleDeviceData ''ZK001'' frame8 at_0830Z_plus10 zk_init) =
     [AttendanceRecordEv
        \<lparr>userId = ''12345'', timestamp = 30600000, rec_type = CheckOut,
         rec_method = Fingerprint, deviceId = ''ZK001''\<rparr>] \<and>
   getHours 0 30600000 = 8 \<and>
   getHours 0 43199999 = 11 \<and>
   emitted (handleDeviceData ''ZK001'' frame8
              \<lparr>parse_now = 43199999, handle_now = 43200000, tz_minutes = 0\<rparr> zk_init) =
     [AttendanceRecordEv
        \<lparr>userId = ''12345'', timestamp = 43199999, rec_type = BreakStart,
         rec_method = Fingerprint, deviceId = ''ZK001''\<rparr>]"
  by (simp add: handleDeviceData_emitted emitted_record_def frame8_def at_0830Z_plus10_def
      getHours_def zk_init_def)

subsection \<open>Chunks on one connection\<close>

lemma handleDeviceData_sock_heap: "sock_heap (handleDeviceData devId data clk st) = sock_heap st"
  by (cases "8 \<le> length data") (simp_all add: handleDeviceData_ok handleDeviceData_short)

lemma handleDeviceData_console:
  "console (handleDeviceData devId data clk st) =
     console st @ (if length data < 8 then [ErrParsing devId InvalidDataLength] else [])"
  by (cases "8 \<le> length data") (simp_all add: handleDeviceData_ok handleDeviceData_short)

lemma on_data_socket:
  "k < length (sock_heap st) \<Longrightarrow>
   length (sock_heap (on_data k data clk st)) = length (sock_heap st) \<and>
   sock_heap (on_data k data clk st) ! k = (sock_heap st ! k)\<lparr>sk_once := []\<rparr>"
  by (simp add: on_data_def Let_def handleDeviceData_sock_heap)

lemma on_data_handled:
  "sk_handlers (sock_heap st ! k) \<Longrightarrow>
   emitted (on_data k data clk st) =
     emitted st @ (if 8 \<le> length data
                   then [AttendanceRecordEv (emitted_record (sk_deviceId (sock_heap st ! k)) clk)]
                   else []) \<and>
   console (on_data k data clk st) =
     console st @ (if length data < 8
                   then [ErrParsing (sk_deviceId (sock_heap st ! k)) InvalidDataLength] else [])"
  by (simp add: on_data_def Let_def handleDeviceData_emitted handleDeviceData_console)

lemma data_events_run:
  "sock_is Open k st \<Longrightarrow> sk_handlers (sock_heap st ! k) \<Longrightarrow>
   \<exists>st'. exec (data_events k chunks) st = Some st' \<and>
     emitted st' = emitted st @
       map (\<lambda>(data, clk). AttendanceRecordEv (emitted_record (sk_deviceId (sock_heap st ! k)) clk))
         (filter (\<lambda>(data, clk). 8 \<le> length data) chunks) \<and>
     console st' = console st @
       map (\<lambda>(data, clk). ErrParsing (sk_deviceId (sock_heap st ! k)) InvalidDataLength)
         (filter (\<lambda>(data, clk). length data < 8) chunks)"
proof (induction chunks arbitrary: st)
  case Nil
  then show ?case by (simp add: data_events_def)
next
  case (Cons c chunks)
  obtain data clk where c: "c = (data, clk)" by (cases c)
  let ?st1 = "on_data k data clk st"
  from Cons.prems have k: "k < length (sock_heap st)" by (simp add: sock_is_def)
  have s1: "sock_is Open k ?st1" "sk_handlers (sock_heap ?st1 ! k)"
    "sk_deviceId (sock_heap ?st1 ! k) = sk_deviceId (sock_heap st ! k)"
    using Cons.prems on_data_socket [OF k, of data clk] by (simp_all add: sock_is_def)
  from Cons.IH [OF s1(1) s1(2)] obtain st' where
    r: "exec (data_events k chunks) ?st1 = Some st'"
       "emitted st' = emitted ?st1 @
          map (\<lambda>(data, clk). AttendanceRecordEv (emitted_record (sk_deviceId (sock_heap ?st1 ! k)) clk))
            (filter (\<lambda>(data, clk). 8 \<le> length data) chunks)"
       "console st' = console ?st1 @
          map (\<lambda>(data, clk). ErrParsing (sk_deviceId (sock_heap ?st1 ! k)) InvalidDataLength)
            (filter (\<lambda>(data, clk). length data < 8) chunks)"
    by blast
  have e: "exec (data_events k (c # chunks)) st = Some st'"
    using r(1) Cons.prems(1) by (simp add: data_events_def c)
  show ?case
    using e r(2,3) on_data_handled [OF Cons.prems(2), of data clk] s1(3)
    by (simp add: c)
qed

text \<open>
  Claim C7. A chunk shorter than eight bytes fails to parse with the invalid-length
  error, which \<^verbatim>\<open>handleDeviceData\<close> catches: it returns the state unchanged but for one
  logged line, so nothing is emitted and nothing is thrown. On a connected socket any
  sequence of chunks is handled to its end; the events emitted are those of the chunks
  of at least eight bytes, in order, and each shorter chunk leaves one logged line.
\<close>

theorem undersized_chunk_dropped:
  "(length bad < 8 \<longrightarrow>
      parseZKData bad (parse_now clk) = Inl InvalidDataLength \<and>
      handleDeviceData devId bad clk st0 =
        st0\<lparr>console := console st0 @ [ErrParsing devId InvalidDataLength]\<rparr>) \<and>
   (sock_is Open k st \<and> sk_handlers (sock_heap st ! k) \<longrightarrow>
      (\<exists>st'. exec (data_events k chunks) st = Some st' \<and>
         emitted st' = emitted st @
           map (\<lambda>(data, clk). AttendanceRecordEv (emitted_record (sk_deviceId (sock_heap st ! k)) clk))
             (filter (\<lambda>(data, clk). 8 \<le> length data) chunks) \<and>
         console st' = console st @
           map (\<lambda>(data, clk). ErrParsing (sk_deviceId (sock_heap st ! k)) InvalidDataLength)
             (filter (\<lambda>(data, clk). length data < 8) chunks)))"
  using data_events_run [of k st chunks] by (simp add: handleDeviceData_short parseZKData_short)

text \<open>
  Claim C7 at a concrete input: a three-byte chunk between two eight-byte chunks on the
  connected socket of ZK001.
\<close>

theorem undersized_chunk_dropped_witness:
  "length [1, 2, 3 :: 8 word] < 8 \<and>
   handleDeviceData ''ZK001'' [1, 2, 3] at_0830Z zk_connected =
     zk_connected\<lparr>console := [LogConnected ''ZK001'', ErrParsing ''ZK001'' InvalidDataLength]\<rparr> \<and>
   sock_is Open 0 zk_connected \<and> sk_handlers (sock_heap zk_connected ! 0) \<and>
   (\<exists>st'. exec (data_events 0 [(frame8, at_0830Z), ([1, 2, 3], at_0830Z), (frame8, at_083010Z)])
             zk_connected = Some st' \<and>
      emitted st' = [DeviceConnected ''ZK001'',
                     AttendanceRecordEv (emitted_record ''ZK001'' at_0830Z),
                     AttendanceRecordEv (emitted_record ''ZK001'' at_083010Z)] \<and>
      console st' = [LogConnected ''ZK001'', ErrParsing ''ZK001'' InvalidDataLength])"
proof -
  have a: "sock_is Open 0 zk_connected \<and> sk_handlers (sock_heap zk_connected ! 0)"
    by (simp add: zk_connected_eq sock_is_def)
  have b: "length [1, 2, 3 :: 8 word] < 8" by simp
  from undersized_chunk_dropped
         [where bad = "[1, 2, 3]" and devId = "''ZK001''" and clk = at_0830Z
            and ?st0.0 = zk_connected and k = 0 and st = zk_connected
            and chunks = "[(frame8, at_0830Z), ([1, 2, 3], at_0830Z), (frame8, at_083010Z)]"]
       a b
  show ?thesis by (simp add: frame8_def) (simp add: zk_connected_eq)
qed


subsection \<open>Broadcast\<close>

lemma broadcast_each_fields:
  "distinct cs \<Longrightarrow>
   fst (broadcast_each s cs st) = None \<and>
   clients (snd (broadcast_each s cs st)) =
     filter (\<lambda>c. c \<notin> set cs \<or> readyState st c = OPEN) (clients st) \<and>
   readyState (snd (broadcast_each s cs st)) = readyState st \<and>
   sent (snd (broadcast_each s cs st)) c =
     (if c \<in> set cs \<and> readyState st c = OPEN then sent st c @ [s] else sent st c)"
proof (induction cs arbitrary: st)
  case Nil
  then show ?case by simp
next
  case (Cons client rest)
  from Cons.prems have d: "distinct rest" and n: "client \<notin> set rest" by simp_all
  show ?case
  proof (cases "readyState st client = OPEN")
    case True
    let ?st1 = "st\<lparr>sent := (sent st)(client := sent st client @ [s])\<rparr>"
    have e: "broadcast_each s (client # rest) st = broadcast_each s rest ?st1"
      using True by (simp add: ws_send_def)
    have f: "filter (\<lambda>c. c \<notin> set rest \<or> readyState st c = OPEN) (clients st) =
             filter (\<lambda>c. c \<notin> set (client # rest) \<or> readyState st c = OPEN) (clients st)"
      using True by (intro filter_cong) auto
    show ?thesis
      unfolding e using Cons.IH [OF d, of ?st1] True n f by auto
  next
    case False
    let ?st1 = "removeClient client st"
    have e: "broadcast_each s (client # rest) st = broadcast_each s rest ?st1"
      using False by simp
    have f: "filter (\<lambda>c. c \<notin> set rest \<or> readyState st c = OPEN) (removeAll client (clients st)) =
             filter (\<lambda>c. c \<notin> set (client # rest) \<or> readyState st c = OPEN) (clients st)"
      unfolding removeAll_filter_not_eq filter_filter
      using False by (intro filter_cong) auto
    show ?thesis
      unfolding e using Cons.IH [OF d, of ?st1] False f by (auto simp: removeClient_def)
  qed
qed

lemma addToSet_distinct: "distinct cs \<Longrightarrow> distinct (addToSet c cs)"
  by (simp add: addToSet_def)

lemma sendToClient_clients: "clients (snd (sendToClient stringify c m st)) = clients st"
  by (simp add: sendToClient_def ws_send_def split: sum.splits)

lemma broadcast_clients:
  "clients (snd (broadcast stringify message st)) =
     (case JSON_stringify stringify message of
        Inl e \<Rightarrow> clients st
      | Inr messageStr \<Rightarrow> clients (snd (broadcast_each messageStr (clients st) st)))"
  by (simp add: broadcast_def split: sum.splits)

lemma subscribers_distinct:
  "distinct (clients st) \<Longrightarrow>
   distinct (clients (snd (addClient stringify ws now st))) \<and>
   distinct (clients (removeClient ws st)) \<and>
   distinct (clients (snd (broadcast stringify message st)))"
  by (simp add: addClient_def sendToClient_clients addToSet_distinct removeClient_def
      broadcast_clients broadcast_each_fields distinct_removeAll split: sum.splits)

text \<open>
  Claim C9, as amended. The subscribers are a set: no WebSocket is in it twice. When
  \<^verbatim>\<open>JSON.stringify\<close> gives a text for the message, \<^verbatim>\<open>broadcast\<close> does not throw; afterwards
  the subscribers are those that were open, in their order; every WebSocket \<open>c\<close> that
  was a subscriber and open has been sent that text once more, and no other WebSocket
  has been sent anything. When \<^verbatim>\<open>JSON.stringify\<close> throws, \<^verbatim>\<open>broadcast\<close> throws the same error
  and changes nothing: nothing is sent and no subscriber is removed.
\<close>

theorem broadcast_to_open_subscribers:
  "distinct (clients st) \<Longrightarrow>
   (JSON_stringify stringify message = Inr messageStr \<longrightarrow>
      fst (broadcast stringify message st) = None \<and>
      clients (snd (broadcast stringify message st)) =
        filter (\<lambda>c. readyState st c = OPEN) (clients st) \<and>
      readyState (snd (broadcast stringify message st)) = readyState st \<and>
      sent (snd (broadcast stringify message st)) c =
        (if c \<in> set (clients st) \<and> readyState st c = OPEN
         then sent st c @ [messageStr] else sent st c)) \<and>
   (JSON_stringify stringify message = Inl e \<longrightarrow>
      broadcast stringify message st = (Some e, st))"
proof -
  assume d: "distinct (clients st)"
  have f: "filter (\<lambda>c. c \<notin> set (clients st) \<or> readyState st c = OPEN) (clients st) =
           filter (\<lambda>c. readyState st c = OPEN) (clients st)"
    by (intro filter_cong) auto
  show ?thesis
    using broadcast_each_fields [OF d, of messageStr st c] f
    by (simp add: broadcast_def)
qed

text \<open>
  Claim C9 as amended, at concrete inputs: of three subscribers the second is closed.
  With a message that serialises it is removed and the other two receive the text;
  with the message that holds a BigInt the call throws and the three stay.
\<close>

theorem broadcast_to_open_subscribers_witness:
  "distinct (clients three_subscribers) \<and>
   JSON_stringify stub_stringify hello_message = Inr (stub_stringify hello_message) \<and>
   fst (broadcast stub_stringify hello_message three_subscribers) = None \<and>
   clients (snd (broadcast stub_stringify hello_message three_subscribers)) = [1, 3] \<and>
   sent (snd (broadcast stub_stringify hello_message three_subscribers)) 1 = [stub_stringify hello_message] \<and>
   sent (snd (broadcast stub_stringify hello_message three_subscribers)) 2 = [] \<and>
   sent (snd (broadcast stub_stringify hello_message three_subscribers)) 3 = [stub_stringify hello_message] \<and>
   JSON_stringify stub_stringify bigint_message = Inl TypeError \<and>
   broadcast stub_stringify bigint_message three_subscribers = (Some TypeError, three_subscribers)"
proof -
  have d: "distinct (clients three_subscribers)" by (simp add: three_subscribers_def)
  have h: "JSON_stringify stub_stringify hello_message = Inr (stub_stringify hello_message)"
    and b: "JSON_stringify stub_stringify bigint_message = Inl TypeError"
    by (simp_all add: JSON_stringify_def hello_message_def bigint_message_def)
  from broadcast_to_open_subscribers
         [OF d, of stub_stringify hello_message "stub_stringify hello_message" 1 TypeError]
       broadcast_to_open_subscribers
         [OF d, of stub_stringify hello_message "stub_stringify hello_message" 2 TypeError]
       broadcast_to_open_subscribers
         [OF d, of stub_stringify hello_message "stub_stringify hello_message" 3 TypeError]
       broadcast_to_open_subscribers
         [OF d, of stub_stringify bigint_message "stub_stringify hello_message" 1 TypeError]
       d h b
  show ?thesis by (simp add: three_subscribers_def)
qed

text \<open>
  Claim C9 as stated fails. \<^verbatim>\<open>broadcast\<close> of the message that holds a BigInt throws a
  TypeError to its caller; subscriber 2, which is closed, is still in the set, and
  subscriber 1, which is open, has been sent nothing.
\<close>

theorem broadcast_unserialisable_counterexample:
  "fst (broadcast stub_stringify bigint_message three_subscribers) = Some TypeError \<and>
   readyState three_subscribers 2 = CLOSED \<and>
   clients (snd (broadcast stub_stringify bigint_message three_subscribers)) = [1, 2, 3] \<and>
   readyState three_subscribers 1 = OPEN \<and>
   sent (snd (broadcast stub_stringify bigint_message three_subscribers)) 1 = []"
  by (simp add: broadcast_def JSON_stringify_def bigint_message_def three_subscribers_def)

subsection \<open>From a notification to the database and the subscribers\<close>

lemmas eval_defs = app_on_data_def on_data_def handleDeviceData_def parseZKData_def readUInt16LE_def
  determineAttendanceType_def getHours_def deliver_def onAttendanceRecord_def getEmployee_def
  createAttendanceRecord_def next_fault_def broadcastAttendanceRecord_def broadcast_def
  JSON_stringify_def ws_send_def
  removeClient_def getDeviceLocation_def employee_name_def app_sample_def env1_def env2_def frame8_def
  at_0830Z_def at_083010Z_def zk_connected_eq Let_def

text \<open>
  Claim C1, evaluated. Two chunks arrive on the connected socket of ZK001 ten seconds
  apart; both yield a record for subject 12345 on device ZK001. The listener inserts
  both rows and the open subscriber 7 is sent two messages: nothing on this path
  compares a record with an earlier one.
\<close>

theorem duplicate_notifications_both_persisted:
  "map (\<lambda>row. (att_id row, employeeId (att_record row), att_deviceId (att_record row),
               att_timestamp (att_record row), att_type (att_record row)))
     (attendance_records (db (two_notifications toISOString stringify))) =
     [(''a1'', ''12345'', ''ZK001'', toISOString 30600000, CheckIn),
      (''a2'', ''12345'', ''ZK001'', toISOString 30610000, CheckIn)] \<and>
   length (sent (rt (two_notifications toISOString stringify)) 7) = 2"
  by (simp add: two_notifications_def eval_defs)

text \<open>
  The import of attendance rows does skip a repeated row: of two equal rows whose
  timestamp parses, the first is inserted and the second is counted as a duplicate.
\<close>

lemma text_le_refl: "text_le s s"
  by (induction s) simp_all

lemma importAttendance_skips_repeat:
  "db_open d \<Longrightarrow> sql_faults d = [] \<Longrightarrow> attendance_records d = [] \<Longrightarrow>
   dateParse (att_timestamp attData) = Some t \<Longrightarrow>
   importAttendance dateParse [(attData, id1, now1), (attData, id2, now2)]
       (\<lparr>imported = 0, duplicates = 0, import_errors = []\<rparr>, d) =
     (\<lparr>imported = 1, duplicates = 1, import_errors = []\<rparr>,
      d\<lparr>attendance_records := [\<lparr>att_id = id1, att_record = attData, createdAt = now1\<rparr>]\<rparr>)"
  by (simp add: getAttendanceRecords_def createAttendanceRecord_def next_fault_def isDuplicate_def
      text_le_refl Let_def)

text \<open>
  Claim C8, as amended. When the lookup of the employee succeeds and the insert fails,
  the listener logs the error and ends: the insert is executed once (of the outcomes
  the environment holds for later statements none is consumed), no row is stored, and
  the subscribers are sent nothing, neither the attendance message nor an alert.
\<close>

theorem persistence_failure_logged_and_dropped:
  "db_open (db app) \<Longrightarrow> sql_faults (db app) = False # True # later \<Longrightarrow>
   onAttendanceRecord toISOString stringify env record app =
     app\<lparr>db := (db app)\<lparr>sql_faults := later\<rparr>,
         app_console := app_console app @ [ErrProcessingAttendance SqlError]\<rparr>"
  by (simp add: onAttendanceRecord_def getEmployee_def createAttendanceRecord_def next_fault_def
      Let_def)

text \<open>
  Claim C8 as amended, at a concrete input: the insert fails and a second execution
  would have succeeded.
\<close>

theorem persistence_failure_logged_and_dropped_witness:
  "db_open (db (app_sample [False, True, False])) \<and>
   sql_faults (db (app_sample [False, True, False])) = [False, True, False] \<and>
   onAttendanceRecord stub_toISOString stub_stringify env1 (emitted_record ''ZK001'' at_0830Z)
       (app_sample [False, True, False]) =
     (app_sample [False])\<lparr>app_console := [ErrProcessingAttendance SqlError]\<rparr>"
proof -
  have a: "db_open (db (app_sample [False, True, False]))"
    and b: "sql_faults (db (app_sample [False, True, False])) = [False, True, False]"
    by (simp_all add: app_sample_def)
  from persistence_failure_logged_and_dropped [OF a b, of stub_toISOString stub_stringify env1
      "emitted_record ''ZK001'' at_0830Z"] a b
  show ?thesis by (simp add: app_sample_def)
qed

text \<open>
  Claim C8 as stated fails. The insert fails once and would succeed if executed again:
  no row is stored, the outcome for the next statement is still unread (there is no
  second attempt), and the open subscriber 7 has been sent nothing (there is no alert).
\<close>

theorem no_retry_no_alert_counterexample:
  "attendance_records (db (onAttendanceRecord stub_toISOString stub_stringify env1
       (emitted_record ''ZK001'' at_0830Z) (app_sample [False, True, False]))) = [] \<and>
   sql_faults (db (onAttendanceRecord stub_toISOString stub_stringify env1
       (emitted_record ''ZK001'' at_0830Z) (app_sample [False, True, False]))) = [False] \<and>
   readyState (rt (app_sample [False, True, False])) 7 = OPEN \<and>
   sent (rt (onAttendanceRecord stub_toISOString stub_stringify env1
       (emitted_record ''ZK001'' at_0830Z) (app_sample [False, True, False]))) 7 = []"
  by (simp add: eval_defs)

subsection \<open>Commands and the chunks that answer them\<close>

lemma handleDeviceData_waiters: "waiters (handleDeviceData devId data clk st) = waiters st"
  by (cases "8 \<le> length data") (simp_all add: handleDeviceData_ok handleDeviceData_short)

lemma resolve_all_length: "length (resolve_all ids response ws) = length ws"
  by (induction ids arbitrary: ws) simp_all

lemma resolve_all_member:
  "w < length ws \<Longrightarrow>
   (w \<in> set ids \<and> w_promise (ws ! w) = Pending) \<or> w_promise (ws ! w) = Resolved response \<Longrightarrow>
   w_promise (resolve_all ids response ws ! w) = Resolved response"
proof (induction ids arbitrary: ws)
  case Nil
  then show ?case by simp
next
  case (Cons a ids)
  let ?ws1 = "ws[a := \<lparr>w_promise = settle (Resolved response) (w_promise (ws ! a)), w_timer = False\<rparr>]"
  have l: "w < length ?ws1" using Cons.prems(1) by simp
  have "(w \<in> set ids \<and> w_promise (?ws1 ! w) = Pending) \<or> w_promise (?ws1 ! w) = Resolved response"
    using Cons.prems by (cases "a = w") (auto simp: settle_def nth_list_update)
  from Cons.IH [OF l this] show ?case by simp
qed

lemma resolve_all_other:
  "w \<notin> set ids \<Longrightarrow> resolve_all ids response ws ! w = ws ! w"
  by (induction ids arbitrary: ws) (auto simp: nth_list_update)

lemma sendCommand_connected:
  "map_of (connections st) devId = Some k \<Longrightarrow> sock_is Open k st \<Longrightarrow>
   (\<exists>st1. sendCommand devId command st = Inr st1 \<and>
      sk_written (sock_heap st1 ! k) = sk_written (sock_heap st ! k) @ [command] \<and>
      waiters st1 = waiters st @ [\<lparr>w_promise = Pending, w_timer = True\<rparr>] \<and>
      enabled (SockData k chunk clk) st1 \<and>
      w_promise (waiters (step (SockData k chunk clk) st1) ! length (waiters st)) = Resolved chunk \<and>
      enabled (CommandTimer (length (waiters st))) st1 \<and>
      w_promise (waiters (step (CommandTimer (length (waiters st))) st1) ! length (waiters st)) =
        Rejected CommandTimeout)"
proof -
  assume c: "map_of (connections st) devId = Some k" and o: "sock_is Open k st"
  let ?w = "length (waiters st)"
  let ?sk = "sock_heap st ! k"
  let ?st1 = "st\<lparr>waiters := waiters st @ [\<lparr>w_promise = Pending, w_timer = True\<rparr>],
                 sock_heap := (sock_heap st)
                   [k := ?sk\<lparr>sk_once := sk_once ?sk @ [?w],
                             sk_written := sk_written ?sk @ [command]\<rparr>]\<rparr>"
  from o have k: "k < length (sock_heap st)" and op: "sk_status ?sk = Open"
    by (simp_all add: sock_is_def)
  have s: "sendCommand devId command st = Inr ?st1"
    using c op by (simp add: sendCommand_def Let_def)
  have w1: "sk_written (sock_heap ?st1 ! k) = sk_written ?sk @ [command]" using k by simp
  have en: "enabled (SockData k chunk clk) ?st1" using k op by (simp add: sock_is_def)
  have once: "?w \<in> set (sk_once (sock_heap ?st1 ! k))" using k by simp
  have r: "w_promise (waiters (step (SockData k chunk clk) ?st1) ! ?w) = Resolved chunk"
    using once resolve_all_member [of ?w "waiters ?st1" "sk_once (sock_heap ?st1 ! k)" chunk]
    by (simp add: on_data_def Let_def handleDeviceData_waiters)
  have t: "enabled (CommandTimer ?w) ?st1 \<and>
           w_promise (waiters (step (CommandTimer ?w) ?st1) ! ?w) = Rejected CommandTimeout"
    by (simp add: command_timer_def settle_def)
  show ?thesis using s w1 en r t by simp
qed

subsection \<open>Evaluating runs\<close>

lemmas zk_defs = zk_init_def zk001_def addDevice_def connectToDevice_def
      or_unchanged_def new_socket_def on_connect_def set_status_def set_lastSeen_def
      set_isConnected_def setupSocketHandlers_def resolve_connect_def settle_def sock_is_def
      sendCommand_def on_data_def on_close_def on_error_def on_timeout_def reject_connect_def
      command_timer_def reconnect_timer_def disconnect_def disconnect_all_def socket_destroy_def
      live_sockets_def outcomes_def handleDeviceData_emitted handleDeviceData_waiters
      handleDeviceData_sock_heap frame8_def Let_def

lemma zk_pending_eq:
  "zk_pending = zk_connected
     \<lparr>waiters := [\<lparr>w_promise = Pending, w_timer = True\<rparr>],
      sock_heap := [\<lparr>sk_deviceId = ''ZK001'', sk_device = 0, sk_status = Open, sk_handlers = True,
                    sk_once = [0], sk_written = [[1, 2]], sk_promise = Resolved True,
                    sk_caught = False\<rparr>]\<rparr>"
  by (simp add: zk_pending_def zk_connected_eq sendCommand_def or_unchanged_def Let_def)

subsection \<open>The close of a connection\<close>

text \<open>
  Claim C4, as amended. When a socket with the listeners of \<^verbatim>\<open>setupSocketHandlers\<close> closes,
  the device is marked not connected, its entry leaves the connections map,
  \<^verbatim>\<open>deviceDisconnected\<close> is emitted and a reconnect is scheduled; the promises of the
  pending commands are left as they are.
  A command that was pending is still pending after the close, and is rejected with
  the command timeout when its own timer fires.
\<close>

theorem close_leaves_commands_pending:
  "enabled (SockClose k) st \<Longrightarrow> sk_handlers (sock_heap st ! k) \<Longrightarrow>
   waiters (step (SockClose k) st) = waiters st \<and>
   emitted (step (SockClose k) st) =
     emitted st @ [DeviceDisconnected (sk_deviceId (sock_heap st ! k))] \<and>
   map_of (connections (step (SockClose k) st)) (sk_deviceId (sock_heap st ! k)) = None \<and>
   reconnects (step (SockClose k) st) = reconnects st @ [sk_deviceId (sock_heap st ! k)] \<and>
   (map_of (devices st) (sk_deviceId (sock_heap st ! k)) = Some r \<and> r < length (dev_heap st) \<longrightarrow>
      \<not> isConnected (dev_heap (step (SockClose k) st) ! r)) \<and>
   (w < length (waiters st) \<and> w_timer (waiters st ! w) \<and> w_promise (waiters st ! w) = Pending \<longrightarrow>
      w_promise (waiters (step (SockClose k) st) ! w) = Pending \<and>
      enabled (CommandTimer w) (step (SockClose k) st) \<and>
      w_promise (waiters (step (CommandTimer w) (step (SockClose k) st)) ! w) =
        Rejected CommandTimeout)"
  by (auto simp: on_close_def set_status_def Let_def sock_is_def delete_conv' command_timer_def
      settle_def set_isConnected_def)

text \<open>
  Claim C4 as amended, at a concrete input: the socket of ZK001 closes while one
  command is pending.
\<close>

theorem close_leaves_commands_pending_witness:
  "enabled (SockClose 0) zk_pending \<and> sk_handlers (sock_heap zk_pending ! 0) \<and>
   0 < length (waiters zk_pending) \<and> w_timer (waiters zk_pending ! 0) \<and>
   w_promise (waiters zk_pending ! 0) = Pending \<and>
   emitted (step (SockClose 0) zk_pending) = [DeviceConnected ''ZK001'', DeviceDisconnected ''ZK001''] \<and>
   reconnects (step (SockClose 0) zk_pending) = [''ZK001''] \<and>
   \<not> isConnected (dev_heap (step (SockClose 0) zk_pending) ! 0) \<and>
   w_promise (waiters (step (SockClose 0) zk_pending) ! 0) = Pending \<and>
   w_promise (waiters (step (CommandTimer 0) (step (SockClose 0) zk_pending)) ! 0) =
     Rejected CommandTimeout"
proof -
  have a: "enabled (SockClose 0) zk_pending" and b: "sk_handlers (sock_heap zk_pending ! 0)"
    and c: "0 < length (waiters zk_pending) \<and> w_timer (waiters zk_pending ! 0) \<and>
            w_promise (waiters zk_pending ! 0) = Pending"
    and d: "emitted zk_pending = [DeviceConnected ''ZK001'']" "reconnects zk_pending = []"
           "sk_deviceId (sock_heap zk_pending ! 0) = ''ZK001''"
           "map_of (devices zk_pending) ''ZK001'' = Some 0" "0 < length (dev_heap zk_pending)"
    by (simp_all add: zk_pending_eq sock_is_def) (simp_all add: zk_connected_eq)
  from close_leaves_commands_pending [OF a b, of 0 0] a b c d show ?thesis by simp
qed

text \<open>
  Claim C4 as stated fails. After the close the promise of the pending command is
  still pending: it has not been rejected.
\<close>

theorem close_counterexample:
  "map_option outcomes
     (exec [AddDevice zk001 0, SockConnect 0 0, SendCommand ''ZK001'' [1, 2], SockClose 0] zk_init) =
     Some [Pending] \<and>
   map_option emitted
     (exec [AddDevice zk001 0, SockConnect 0 0, SendCommand ''ZK001'' [1, 2], SockClose 0] zk_init) =
     Some [DeviceConnected ''ZK001'', DeviceDisconnected ''ZK001'']"
  by (simp add: zk_defs)

subsection \<open>socket.destroy and disconnect\<close>

lemma socket_destroy_length: "length (socket_destroy k h) = length h"
  by (simp add: socket_destroy_def)

lemma socket_destroy_nth:
  "socket_destroy k h ! i =
     (if i = k \<and> k < length h \<and> (sk_status (h ! k) = Connecting \<or> sk_status (h ! k) = Open)
      then (h ! i)\<lparr>sk_status := Destroyed\<rparr> else h ! i)"
  by (auto simp: socket_destroy_def nth_list_update)

lemma destroy_all_length: "length (fold socket_destroy ks h) = length h"
  by (induction ks arbitrary: h) (simp_all add: socket_destroy_length)

lemma destroy_all_nth:
  "i < length h \<Longrightarrow>
   fold socket_destroy ks h ! i =
     (if i \<in> set ks \<and> (sk_status (h ! i) = Connecting \<or> sk_status (h ! i) = Open)
      then (h ! i)\<lparr>sk_status := Destroyed\<rparr> else h ! i)"
proof (induction ks arbitrary: h)
  case Nil
  then show ?case by simp
next
  case (Cons k ks)
  have "i < length (socket_destroy k h)" using Cons.prems by (simp add: socket_destroy_length)
  from Cons.IH [OF this] Cons.prems show ?case
    by (auto simp: socket_destroy_nth)
qed

lemma socket_destroy_idem: "socket_destroy k (socket_destroy k h) = socket_destroy k h"
  by (rule nth_equalityI) (auto simp: socket_destroy_length socket_destroy_nth)

lemma destroy_all_idem:
  "fold socket_destroy ks (fold socket_destroy ks h) = fold socket_destroy ks h"
  by (rule nth_equalityI) (auto simp: destroy_all_length destroy_all_nth)

lemma disconnect_idem: "disconnect devId (disconnect devId st) = disconnect devId st"
  by (auto simp: disconnect_def disconnect_all_def destroy_all_idem socket_destroy_idem
      split: option.splits)

lemma disconnect_frame:
  "reconnects (disconnect devId st) = reconnects st \<and>
   connections (disconnect devId st) = connections st \<and>
   emitted (disconnect devId st) = emitted st"
  by (auto simp: disconnect_def disconnect_all_def split: option.splits)

subsection \<open>The connections map in reachable states\<close>

lemma nth_update_any: "xs[i := x] ! j = (if i = j \<and> i < length xs then x else xs ! j)"
  by (cases "i < length xs") (auto simp: nth_list_update list_update_beyond)

lemma conn_inv_init: "conn_inv zk_init"
  by (simp add: conn_inv_def zk_init_def)

lemma conn_inv_heap:
  "conn_inv st \<Longrightarrow> connections st' = connections st \<Longrightarrow>
   length (sock_heap st) \<le> length (sock_heap st') \<Longrightarrow>
   (\<And>k. k < length (sock_heap st) \<Longrightarrow>
      sk_deviceId (sock_heap st' ! k) = sk_deviceId (sock_heap st ! k) \<and>
      (sk_handlers (sock_heap st ! k) \<longrightarrow> sk_handlers (sock_heap st' ! k))) \<Longrightarrow>
   conn_inv st'"
  by (fastforce simp: conn_inv_def)

lemma connectToDevice_conn_inv:
  "conn_inv st \<Longrightarrow> conn_inv (or_unchanged st (connectToDevice caught devId st))"
  by (cases "map_of (devices st) devId")
     (auto simp: connectToDevice_def or_unchanged_def nth_append intro: conn_inv_heap)

lemma reject_connect_sockets:
  "length (sock_heap (reject_connect e k st)) = length (sock_heap st) \<and>
   sk_deviceId (sock_heap (reject_connect e k st) ! i) = sk_deviceId (sock_heap st ! i) \<and>
   sk_handlers (sock_heap (reject_connect e k st) ! i) = sk_handlers (sock_heap st ! i) \<and>
   sk_status (sock_heap (reject_connect e k st) ! i) = sk_status (sock_heap st ! i) \<and>
   connections (reject_connect e k st) = connections st"
  by (auto simp: reject_connect_def Let_def nth_update_any)

lemma addDevice_conn_inv: "conn_inv st \<Longrightarrow> conn_inv (step (AddDevice config now) st)"
proof -
  assume i: "conn_inv st"
  let ?st1 = "st\<lparr>dev_heap := dev_heap st @ [\<lparr>dev_id = cfg_id config, ip = cfg_ip config,
      port = cfg_port config, password = cfg_password config, isConnected = False, lastSeen = now\<rparr>],
      devices := AList.update (cfg_id config) (length (dev_heap st)) (devices st)\<rparr>"
  have "conn_inv ?st1" using i by (auto intro: conn_inv_heap)
  then have "conn_inv (or_unchanged ?st1 (connectToDevice False (cfg_id config) ?st1))"
    by (rule connectToDevice_conn_inv)
  then show ?thesis
    by (simp add: addDevice_def Let_def or_unchanged_def connectToDevice_def update_conv')
qed

lemma sendCommand_conn_inv: "conn_inv st \<Longrightarrow> conn_inv (step (SendCommand d c) st)"
  by (cases "map_of (connections st) d")
     (auto simp: sendCommand_def or_unchanged_def Let_def nth_update_any
        intro!: conn_inv_heap [of st])

lemma disconnect_conn_inv: "conn_inv st \<Longrightarrow> conn_inv (step (Disconnect d) st)"
    by (auto simp: disconnect_def disconnect_all_def socket_destroy_length socket_destroy_nth
        destroy_all_length destroy_all_nth split: option.splits intro!: conn_inv_heap [of st])


lemma sockConnect_conn_inv:
  "conn_inv st \<Longrightarrow> enabled (SockConnect k now) st \<Longrightarrow> conn_inv (step (SockConnect k now) st)"
  by (auto simp: conn_inv_def sock_is_def on_connect_def set_status_def Let_def update_conv'
        distinct_update setupSocketHandlers_def resolve_connect_def nth_update_any)

lemma sockError_conn_inv: "conn_inv st \<Longrightarrow> conn_inv (step (SockError k) st)"
  by (auto simp: on_error_def set_status_def Let_def reject_connect_sockets nth_update_any
        intro!: conn_inv_heap [of st])

lemma sockTimeout_conn_inv: "conn_inv st \<Longrightarrow> conn_inv (step (SockTimeout k) st)"
  by (auto simp: on_timeout_def Let_def reject_connect_sockets socket_destroy_length
        socket_destroy_nth intro!: conn_inv_heap [of st])

lemma handleDeviceData_connections:
  "connections (handleDeviceData d data clk st) = connections st"
  by (cases "8 \<le> length data") (simp_all add: handleDeviceData_ok handleDeviceData_short)

lemma sockData_conn_inv: "conn_inv st \<Longrightarrow> conn_inv (step (SockData k data clk) st)"
  by (auto simp: on_data_def Let_def handleDeviceData_sock_heap handleDeviceData_connections
        nth_update_any intro!: conn_inv_heap [of st])

lemma conn_inv_delete:
  "conn_inv st \<Longrightarrow> connections st' = AList.delete d (connections st) \<Longrightarrow>
   length (sock_heap st) \<le> length (sock_heap st') \<Longrightarrow>
   (\<And>k. k < length (sock_heap st) \<Longrightarrow>
      sk_deviceId (sock_heap st' ! k) = sk_deviceId (sock_heap st ! k) \<and>
      (sk_handlers (sock_heap st ! k) \<longrightarrow> sk_handlers (sock_heap st' ! k))) \<Longrightarrow>
   conn_inv st'"
  unfolding conn_inv_def
  by (simp add: delete_conv' distinct_delete del: map_of_eq_Some_iff) (metis le_trans not_le)

lemma sockClose_conn_inv: "conn_inv st \<Longrightarrow> conn_inv (step (SockClose k) st)"
proof (cases "sk_handlers (sock_heap st ! k)")
  case True
  assume "conn_inv st"
  then show ?thesis using True
    by (auto simp: on_close_def set_status_def Let_def nth_update_any
          intro!: conn_inv_delete [of st _ "sk_deviceId (sock_heap st ! k)"])
next
  case False
  assume "conn_inv st"
  then show ?thesis using False
    by (auto simp: set_status_def nth_update_any intro!: conn_inv_heap [of st])
qed

lemma reconnectTimer_conn_inv: "conn_inv st \<Longrightarrow> conn_inv (step ReconnectTimer st)"
proof (cases "reconnects st")
  case Nil
  assume "conn_inv st"
  then show ?thesis using Nil by (simp add: reconnect_timer_def)
next
  case (Cons d rest)
  assume i: "conn_inv st"
  have "conn_inv (st\<lparr>reconnects := rest\<rparr>)" using i by (auto intro: conn_inv_heap)
  from connectToDevice_conn_inv [OF this, of True d] show ?thesis
    using Cons i
    by (auto simp: reconnect_timer_def or_unchanged_def split: sum.splits intro: conn_inv_heap)
qed

lemma commandTimer_conn_inv: "conn_inv st \<Longrightarrow> conn_inv (step (CommandTimer w) st)"
  by (auto simp: command_timer_def intro: conn_inv_heap [of st])


lemma step_conn_inv: "conn_inv st \<Longrightarrow> enabled ev st \<Longrightarrow> conn_inv (step ev st)"
  using addDevice_conn_inv connectToDevice_conn_inv sendCommand_conn_inv disconnect_conn_inv
    sockConnect_conn_inv sockError_conn_inv sockTimeout_conn_inv sockData_conn_inv
    sockClose_conn_inv reconnectTimer_conn_inv commandTimer_conn_inv
  by (cases ev) simp_all

lemma exec_conn_inv: "exec evs st = Some st' \<Longrightarrow> conn_inv st \<Longrightarrow> conn_inv st'"
  by (induction evs arbitrary: st) (auto split: if_splits intro: step_conn_inv)

lemma reachable_conn_inv: "exec evs zk_init = Some st \<Longrightarrow> conn_inv st"
  by (rule exec_conn_inv [OF _ conn_inv_init])

lemma connections_keys_distinct:
  "exec evs zk_init = Some st \<Longrightarrow> distinct (map fst (connections st))"
  using reachable_conn_inv by (simp add: conn_inv_def)

lemma disconnect_destroys:
  "exec evs zk_init = Some st \<Longrightarrow> map_of (connections st) d = Some k \<Longrightarrow> sock_is Open k st \<Longrightarrow>
   devId = None \<or> devId = Some [] \<or> devId = Some d \<Longrightarrow>
   sock_heap (disconnect devId st) ! k = (sock_heap st ! k)\<lparr>sk_status := Destroyed\<rparr> \<and>
   length (sock_heap (disconnect devId st)) = length (sock_heap st)"
proof -
  assume r: "exec evs zk_init = Some st" and c: "map_of (connections st) d = Some k"
    and o: "sock_is Open k st" and v: "devId = None \<or> devId = Some [] \<or> devId = Some d"
  from o have k: "k < length (sock_heap st)" and op: "sk_status (sock_heap st ! k) = Open"
    by (simp_all add: sock_is_def)
  from c have m: "k \<in> set (map snd (connections st))"
    by (force dest: map_of_SomeD)
  have all: "sock_heap (disconnect_all st) ! k = (sock_heap st ! k)\<lparr>sk_status := Destroyed\<rparr> \<and>
             length (sock_heap (disconnect_all st)) = length (sock_heap st)"
    using k op m by (simp add: disconnect_all_def destroy_all_nth destroy_all_length)
  have one: "sock_heap (disconnect (Some d) st) ! k = (sock_heap st ! k)\<lparr>sk_status := Destroyed\<rparr> \<and>
             length (sock_heap (disconnect (Some d) st)) = length (sock_heap st)"
    using all c k op by (simp add: disconnect_def socket_destroy_nth socket_destroy_length)
  from v all one show ?thesis by (auto simp: disconnect_def)
qed

lemma disconnect_others:
  "j < length (sock_heap st) \<Longrightarrow>
   (d \<noteq> [] \<and> map_of (connections st) d \<noteq> Some j \<longrightarrow>
      sock_heap (disconnect (Some d) st) ! j = sock_heap st ! j) \<and>
   (j \<notin> set (map snd (connections st)) \<longrightarrow>
      sock_heap (disconnect None st) ! j = sock_heap st ! j \<and>
      sock_heap (disconnect (Some []) st) ! j = sock_heap st ! j)"
  by (auto simp: disconnect_def disconnect_all_def destroy_all_nth socket_destroy_nth
      split: option.splits)

text \<open>
  Claim C5, as amended. \<^verbatim>\<open>disconnect\<close> is idempotent and schedules nothing itself. In a
  state the service reaches, take a device \<open>d\<close> whose socket in the map is open:
  \<^verbatim>\<open>disconnect(d)\<close>, and likewise \<^verbatim>\<open>disconnect()\<close> and \<^verbatim>\<open>disconnect('')\<close>, which address every
  device, destroy that socket; the close event that follows runs the same listener as
  any other close, which schedules a reconnect for \<open>d\<close>. A socket that the call does not
  address is left as it is.
\<close>

theorem disconnect_idempotent_and_reconnects:
  "disconnect devId (disconnect devId st) = disconnect devId st \<and>
   reconnects (disconnect devId st) = reconnects st \<and>
   (exec evs zk_init = Some st \<and> map_of (connections st) d = Some k \<and> sock_is Open k st \<and>
    (devId = None \<or> devId = Some [] \<or> devId = Some d) \<longrightarrow>
      sock_is Destroyed k (disconnect devId st) \<and>
      enabled (SockClose k) (disconnect devId st) \<and>
      reconnects (step (SockClose k) (disconnect devId st)) = reconnects st @ [d]) \<and>
   (j < length (sock_heap st) \<and> d' \<noteq> [] \<and> map_of (connections st) d' \<noteq> Some j \<longrightarrow>
      sock_heap (disconnect (Some d') st) ! j = sock_heap st ! j) \<and>
   (j < length (sock_heap st) \<and> j \<notin> set (map snd (connections st)) \<longrightarrow>
      sock_heap (disconnect None st) ! j = sock_heap st ! j \<and>
      sock_heap (disconnect (Some []) st) ! j = sock_heap st ! j)"
proof -
  have "sock_is Destroyed k (disconnect devId st) \<and>
        enabled (SockClose k) (disconnect devId st) \<and>
        reconnects (step (SockClose k) (disconnect devId st)) = reconnects st @ [d]"
    if r: "exec evs zk_init = Some st"
      and c: "map_of (connections st) d = Some k" and o: "sock_is Open k st"
      and v: "devId = None \<or> devId = Some [] \<or> devId = Some d"
  proof -
    from reachable_conn_inv [OF r] c
    have k: "k < length (sock_heap st)" and i: "sk_deviceId (sock_heap st ! k) = d"
      and h: "sk_handlers (sock_heap st ! k)"
      by (simp_all add: conn_inv_def)
    let ?st1 = "disconnect devId st"
    from disconnect_destroys [OF r c o v]
    have s1: "sock_heap ?st1 ! k = (sock_heap st ! k)\<lparr>sk_status := Destroyed\<rparr>"
      and l: "length (sock_heap ?st1) = length (sock_heap st)" by simp_all
    have a: "sock_is Destroyed k ?st1" using k by (simp add: sock_is_def s1 l)
    have b: "sk_handlers (sock_heap ?st1 ! k)" "sk_deviceId (sock_heap ?st1 ! k) = d"
      using k h i by (simp_all add: s1)
    have "reconnects (step (SockClose k) ?st1) = reconnects st @ [d]"
      using b by (simp add: on_close_def set_status_def Let_def nth_update_any disconnect_frame)
    with a show ?thesis by simp
  qed
  then show ?thesis using disconnect_others [of j st d']
    by (simp add: disconnect_idem disconnect_frame)
qed

text \<open>
  Claim C5 as amended, at a concrete input: ZK001 connected, then disconnected by its
  id and by the call for all devices.
\<close>

theorem disconnect_idempotent_and_reconnects_witness:
  "exec [AddDevice zk001 0, SockConnect 0 0] zk_init = Some zk_connected \<and>
   ''ZK001'' \<noteq> [] \<and> map_of (connections zk_connected) ''ZK001'' = Some 0 \<and>
   sock_is Open 0 zk_connected \<and>
   sock_is Destroyed 0 (disconnect (Some ''ZK001'') zk_connected) \<and>
   disconnect (Some ''ZK001'') (disconnect (Some ''ZK001'') zk_connected) =
     disconnect (Some ''ZK001'') zk_connected \<and>
   reconnects (step (SockClose 0) (disconnect (Some ''ZK001'') zk_connected)) = [''ZK001''] \<and>
   sock_is Destroyed 0 (disconnect None zk_connected) \<and>
   enabled (SockClose 0) (disconnect None zk_connected) \<and>
   reconnects (step (SockClose 0) (disconnect None zk_connected)) = [''ZK001''] \<and>
   0 < length (sock_heap zk_connected) \<and> map_of (connections zk_connected) ''MB2000'' \<noteq> Some 0 \<and>
   sock_heap (disconnect (Some ''MB2000'') zk_connected) ! 0 = sock_heap zk_connected ! 0"
proof -
  have r: "exec [AddDevice zk001 0, SockConnect 0 0] zk_init = Some zk_connected"
    by (subst exec_connect) simp
  have a: "''ZK001'' \<noteq> [] \<and> map_of (connections zk_connected) ''ZK001'' = Some 0 \<and>
           sock_is Open 0 zk_connected" and b: "reconnects zk_connected = []"
    and c: "0 < length (sock_heap zk_connected) \<and> ''MB2000'' \<noteq> [] \<and>
            map_of (connections zk_connected) ''MB2000'' \<noteq> Some 0"
    by (simp_all add: zk_connected_eq sock_is_def)
  from disconnect_idempotent_and_reconnects
         [where devId = "Some ''ZK001''" and st = zk_connected
            and evs = "[AddDevice zk001 0, SockConnect 0 0]" and d = "''ZK001''" and k = 0
            and j = 0 and d' = "''MB2000''"]
       disconnect_idempotent_and_reconnects
         [where devId = None and st = zk_connected
            and evs = "[AddDevice zk001 0, SockConnect 0 0]" and d = "''ZK001''" and k = 0
            and j = 0 and d' = "''MB2000''"]
       r a b c
  show ?thesis by simp
qed

text \<open>
  Claim C5 as stated fails. After \<^verbatim>\<open>disconnect('ZK001')\<close> and the close of the socket a
  reconnect for ZK001 is scheduled; when its timer fires and the new socket connects,
  ZK001 has a live socket again.
\<close>

theorem disconnect_counterexample:
  "map_option reconnects
     (exec [AddDevice zk001 0, SockConnect 0 0, Disconnect (Some ''ZK001''), SockClose 0] zk_init) =
     Some [''ZK001''] \<and>
   map_option (live_sockets ''ZK001'')
     (exec [AddDevice zk001 0, SockConnect 0 0, Disconnect (Some ''ZK001''), SockClose 0,
            ReconnectTimer, SockConnect 1 5000] zk_init) = Some [1]"
  by (simp add: zk_defs)

text \<open>
  Claim C2, evaluated. First run: \<^verbatim>\<open>connectToDevice('ZK001')\<close> is called while the socket
  that \<^verbatim>\<open>addDevice\<close> created is still connecting; both sockets connect. The map holds
  the second socket only, but both are open with their listeners attached, and a chunk
  on either is handled. Second run: the socket of ZK001 closes, which schedules a
  reconnect; the device is connected again by a call of \<^verbatim>\<open>connectToDevice\<close> before the
  timer fires; the timer then opens a further socket without looking at the device's
  state, and ZK001 has two open sockets.
\<close>

theorem two_live_sockets_for_one_device:
  "map_option (live_sockets ''ZK001'')
     (exec [AddDevice zk001 0, ConnectToDevice ''ZK001'', SockConnect 0 0, SockConnect 1 1] zk_init) =
     Some [0, 1] \<and>
   map_option connections
     (exec [AddDevice zk001 0, ConnectToDevice ''ZK001'', SockConnect 0 0, SockConnect 1 1] zk_init) =
     Some [(''ZK001'', 1)] \<and>
   map_option emitted
     (exec [AddDevice zk001 0, ConnectToDevice ''ZK001'', SockConnect 0 0, SockConnect 1 1,
            SockData 0 frame8 at_0830Z, SockData 1 frame8 at_0830Z] zk_init) =
     Some [DeviceConnected ''ZK001'', DeviceConnected ''ZK001'',
           AttendanceRecordEv (emitted_record ''ZK001'' at_0830Z),
           AttendanceRecordEv (emitted_record ''ZK001'' at_0830Z)] \<and>
   map_option (live_sockets ''ZK001'')
     (exec [AddDevice zk001 0, SockConnect 0 0, SockClose 0, ConnectToDevice ''ZK001'',
            SockConnect 1 1000, ReconnectTimer, SockConnect 2 5000] zk_init) = Some [1, 2] \<and>
   map_option connections
     (exec [AddDevice zk001 0, SockConnect 0 0, SockClose 0, ConnectToDevice ''ZK001'',
            SockConnect 1 1000, ReconnectTimer, SockConnect 2 5000] zk_init) =
     Some [(''ZK001'', 2)]"
  by (simp add: zk_defs)

subsection \<open>The listeners of pending commands in reachable states\<close>

lemma once_inv_init: "once_inv zk_init"
  by (simp add: once_inv_def zk_init_def)

lemma once_inv_frame:
  "once_inv st \<Longrightarrow> length (waiters st) \<le> length (waiters st') \<Longrightarrow>
   (\<And>j v. j < length (sock_heap st') \<Longrightarrow> v \<in> set (sk_once (sock_heap st' ! j)) \<Longrightarrow>
      (j < length (sock_heap st) \<and> v \<in> set (sk_once (sock_heap st ! j))) \<or>
      v < length (waiters st')) \<Longrightarrow>
   once_inv st'"
  unfolding once_inv_def by (metis less_le_trans)

lemma appended_socket:
  "j < Suc (length h) \<Longrightarrow>
   sk_once ((h @ [new_socket d r c]) ! j) = (if j < length h then sk_once (h ! j) else []) \<and>
   sk_handlers ((h @ [new_socket d r c]) ! j) = (j < length h \<and> sk_handlers (h ! j)) \<and>
   (j < length h \<longrightarrow> (h @ [new_socket d r c]) ! j = h ! j)"
  by (auto simp: nth_append new_socket_def less_Suc_eq)

lemma connectToDevice_once_inv:
  "once_inv st \<Longrightarrow> once_inv (or_unchanged st (connectToDevice caught devId st))"
  by (cases "map_of (devices st) devId")
     (auto simp: connectToDevice_def or_unchanged_def appended_socket
        intro!: once_inv_frame [of st] split: if_splits)

lemma addDevice_once_inv: "once_inv st \<Longrightarrow> once_inv (step (AddDevice config now) st)"
  by (auto simp: addDevice_def Let_def or_unchanged_def connectToDevice_def update_conv'
        appended_socket intro!: once_inv_frame [of st] split: if_splits)

lemma sendCommand_once_inv: "once_inv st \<Longrightarrow> once_inv (step (SendCommand d c) st)"
  by (cases "map_of (connections st) d")
     (auto simp: sendCommand_def or_unchanged_def Let_def nth_update_any
        intro!: once_inv_frame [of st] split: if_splits)

lemma disconnect_once_inv: "once_inv st \<Longrightarrow> once_inv (step (Disconnect d) st)"
  by (auto simp: disconnect_def disconnect_all_def socket_destroy_length socket_destroy_nth
        destroy_all_length destroy_all_nth split: option.splits if_splits
        intro!: once_inv_frame [of st])

lemma sockConnect_once_inv: "once_inv st \<Longrightarrow> once_inv (step (SockConnect k now) st)"
  by (auto simp: on_connect_def set_status_def Let_def setupSocketHandlers_def
        resolve_connect_def nth_update_any intro!: once_inv_frame [of st] split: if_splits)

lemma reject_connect_once:
  "sk_once (sock_heap (reject_connect e k st) ! j) = sk_once (sock_heap st ! j) \<and>
   waiters (reject_connect e k st) = waiters st"
  by (auto simp: reject_connect_def Let_def nth_update_any)

lemma sockError_once_inv: "once_inv st \<Longrightarrow> once_inv (step (SockError k) st)"
  by (auto simp: on_error_def set_status_def Let_def reject_connect_sockets reject_connect_once
        nth_update_any intro!: once_inv_frame [of st] split: if_splits)

lemma sockTimeout_once_inv: "once_inv st \<Longrightarrow> once_inv (step (SockTimeout k) st)"
  by (auto simp: on_timeout_def Let_def reject_connect_sockets reject_connect_once
        socket_destroy_length socket_destroy_nth intro!: once_inv_frame [of st] split: if_splits)

lemma sockData_once_inv: "once_inv st \<Longrightarrow> once_inv (step (SockData k data clk) st)"
  by (auto simp: on_data_def Let_def handleDeviceData_sock_heap handleDeviceData_waiters
        resolve_all_length nth_update_any intro!: once_inv_frame [of st] split: if_splits)

lemma sockClose_once_inv: "once_inv st \<Longrightarrow> once_inv (step (SockClose k) st)"
  by (auto simp: on_close_def set_status_def Let_def nth_update_any
        intro!: once_inv_frame [of st] split: if_splits)

lemma reconnectTimer_once_inv: "once_inv st \<Longrightarrow> once_inv (step ReconnectTimer st)"
  by (auto simp: reconnect_timer_def connectToDevice_def appended_socket
        intro!: once_inv_frame [of st] split: list.splits option.splits if_splits)

lemma commandTimer_once_inv: "once_inv st \<Longrightarrow> once_inv (step (CommandTimer w) st)"
  by (auto simp: command_timer_def intro!: once_inv_frame [of st])

lemma step_once_inv: "once_inv st \<Longrightarrow> once_inv (step ev st)"
  using addDevice_once_inv connectToDevice_once_inv sendCommand_once_inv disconnect_once_inv
    sockConnect_once_inv sockError_once_inv sockTimeout_once_inv sockData_once_inv
    sockClose_once_inv reconnectTimer_once_inv commandTimer_once_inv
  by (cases ev) simp_all

lemma exec_once_inv: "exec evs st = Some st' \<Longrightarrow> once_inv st \<Longrightarrow> once_inv st'"
  by (induction evs arbitrary: st) (auto split: if_splits intro: step_once_inv)

lemma reachable_once_inv: "exec evs zk_init = Some st \<Longrightarrow> once_inv st"
  by (rule exec_once_inv [OF _ once_inv_init])

lemma awaiting_frame:
  "awaiting devId k w st \<Longrightarrow>
   length (sock_heap st) \<le> length (sock_heap st') \<Longrightarrow>
   length (waiters st) \<le> length (waiters st') \<Longrightarrow> waiters st' ! w = waiters st ! w \<Longrightarrow>
   (\<And>j. j < length (sock_heap st) \<Longrightarrow>
      sk_deviceId (sock_heap st' ! j) = sk_deviceId (sock_heap st ! j) \<and>
      (sk_handlers (sock_heap st ! j) \<longrightarrow> sk_handlers (sock_heap st' ! j)) \<and>
      (w \<in> set (sk_once (sock_heap st' ! j))) = (w \<in> set (sk_once (sock_heap st ! j)))) \<Longrightarrow>
   (\<And>j. length (sock_heap st) \<le> j \<Longrightarrow> j < length (sock_heap st') \<Longrightarrow>
      w \<notin> set (sk_once (sock_heap st' ! j))) \<Longrightarrow>
   awaiting devId k w st'"
  unfolding awaiting_def
  by (metis less_le_trans not_le)

lemma connectToDevice_awaiting:
  "awaiting devId k w st \<Longrightarrow> awaiting devId k w (or_unchanged st (connectToDevice caught d st))"
  by (cases "map_of (devices st) d")
     (auto simp: connectToDevice_def or_unchanged_def appended_socket nth_append new_socket_def
        intro!: awaiting_frame [of devId k w st] split: if_splits)

lemma addDevice_awaiting:
  "awaiting devId k w st \<Longrightarrow> awaiting devId k w (step (AddDevice config now) st)"
  by (auto simp: addDevice_def Let_def or_unchanged_def connectToDevice_def update_conv'
        appended_socket nth_append new_socket_def intro!: awaiting_frame [of devId k w st] split: if_splits)

lemma sendCommand_awaiting:
  "awaiting devId k w st \<Longrightarrow> awaiting devId k w (step (SendCommand d c) st)"
  by (cases "map_of (connections st) d")
     (auto simp: sendCommand_def or_unchanged_def Let_def nth_update_any nth_append awaiting_def)

lemma disconnect_awaiting:
  "awaiting devId k w st \<Longrightarrow> awaiting devId k w (step (Disconnect d) st)"
  by (auto simp: disconnect_def disconnect_all_def socket_destroy_length socket_destroy_nth
        destroy_all_length destroy_all_nth split: option.splits if_splits
        intro!: awaiting_frame [of devId k w st])

lemma sockConnect_awaiting:
  "awaiting devId k w st \<Longrightarrow> awaiting devId k w (step (SockConnect j now) st)"
  by (auto simp: on_connect_def set_status_def Let_def setupSocketHandlers_def
        resolve_connect_def nth_update_any intro!: awaiting_frame [of devId k w st] split: if_splits)

lemma sockError_awaiting:
  "awaiting devId k w st \<Longrightarrow> awaiting devId k w (step (SockError j) st)"
  by (auto simp: on_error_def set_status_def Let_def reject_connect_sockets reject_connect_once
        nth_update_any intro!: awaiting_frame [of devId k w st] split: if_splits)

lemma sockTimeout_awaiting:
  "awaiting devId k w st \<Longrightarrow> awaiting devId k w (step (SockTimeout j) st)"
  by (auto simp: on_timeout_def Let_def reject_connect_sockets reject_connect_once
        socket_destroy_length socket_destroy_nth intro!: awaiting_frame [of devId k w st] split: if_splits)

lemma sockData_awaiting:
  "awaiting devId k w st \<Longrightarrow> j \<noteq> k \<Longrightarrow> j < length (sock_heap st) \<Longrightarrow>
   awaiting devId k w (step (SockData j data clk) st)"
  by (auto simp: on_data_def Let_def handleDeviceData_sock_heap handleDeviceData_waiters
        resolve_all_length resolve_all_other nth_update_any awaiting_def)

lemma sockClose_awaiting:
  "awaiting devId k w st \<Longrightarrow> awaiting devId k w (step (SockClose j) st)"
  by (auto simp: on_close_def set_status_def Let_def nth_update_any
        intro!: awaiting_frame [of devId k w st] split: if_splits)

lemma reconnectTimer_awaiting:
  "awaiting devId k w st \<Longrightarrow> awaiting devId k w (step ReconnectTimer st)"
  by (auto simp: reconnect_timer_def connectToDevice_def appended_socket nth_append new_socket_def
        intro!: awaiting_frame [of devId k w st] split: list.splits option.splits if_splits)

lemma commandTimer_awaiting:
  "awaiting devId k w st \<Longrightarrow> v \<noteq> w \<Longrightarrow> awaiting devId k w (step (CommandTimer v) st)"
  by (auto simp: command_timer_def nth_update_any intro!: awaiting_frame [of devId k w st] split: if_splits)

lemma step_awaiting:
  "awaiting devId k w st \<Longrightarrow> enabled ev st \<Longrightarrow> \<not> answers k w ev \<Longrightarrow>
   awaiting devId k w (step ev st)"
  using addDevice_awaiting connectToDevice_awaiting sendCommand_awaiting disconnect_awaiting
    sockConnect_awaiting sockError_awaiting sockTimeout_awaiting sockData_awaiting
    sockClose_awaiting reconnectTimer_awaiting commandTimer_awaiting
  by (cases ev) (simp_all add: sock_is_def)

lemma exec_awaiting:
  "exec evs st = Some st' \<Longrightarrow> awaiting devId k w st \<Longrightarrow> \<not> list_ex (answers k w) evs \<Longrightarrow>
   awaiting devId k w st'"
proof (induction evs arbitrary: st)
  case Nil
  then show ?case by simp
next
  case (Cons ev evs)
  from Cons.prems have en: "enabled ev st" and ex: "exec evs (step ev st) = Some st'"
    and q: "\<not> answers k w ev" "\<not> list_ex (answers k w) evs"
    by (auto split: if_splits)
  from Cons.IH [OF ex step_awaiting [OF Cons.prems(2) en q(1)] q(2)] show ?case .
qed

lemma sendCommand_awaiting_start:
  "exec evs0 zk_init = Some st \<Longrightarrow> map_of (connections st) devId = Some k \<Longrightarrow>
   sock_is Open k st \<Longrightarrow> sendCommand devId command st = Inr st1 \<Longrightarrow>
   awaiting devId k (length (waiters st)) st1"
proof -
  assume r: "exec evs0 zk_init = Some st" and c: "map_of (connections st) devId = Some k"
    and o: "sock_is Open k st" and s: "sendCommand devId command st = Inr st1"
  from reachable_conn_inv [OF r] c
  have k: "k < length (sock_heap st)" and i: "sk_deviceId (sock_heap st ! k) = devId"
    and h: "sk_handlers (sock_heap st ! k)"
    by (simp_all add: conn_inv_def)
  from reachable_once_inv [OF r]
  have f: "length (waiters st) \<notin> set (sk_once (sock_heap st ! j))" if "j < length (sock_heap st)" for j
    using that by (auto simp: once_inv_def)
  from s c have st1: "st1 = st\<lparr>waiters := waiters st @ [\<lparr>w_promise = Pending, w_timer = True\<rparr>],
       sock_heap := (sock_heap st)
         [k := (sock_heap st ! k)\<lparr>sk_once := sk_once (sock_heap st ! k) @ [length (waiters st)],
              sk_written := (if sk_status (sock_heap st ! k) = Open
                             then sk_written (sock_heap st ! k) @ [command]
                             else sk_written (sock_heap st ! k))\<rparr>]\<rparr>"
    by (simp add: sendCommand_def Let_def)
  show ?thesis using k i h f
    by (auto simp: st1 awaiting_def nth_update_any)
qed

lemma awaiting_answer:
  "awaiting devId k w s \<Longrightarrow>
   w_promise (waiters s ! w) = Pending \<and>
   enabled (CommandTimer w) s \<and>
   w_promise (waiters (step (CommandTimer w) s) ! w) = Rejected CommandTimeout \<and>
   w_promise (waiters (step (SockData k chunk clk) s) ! w) = Resolved chunk \<and>
   emitted (step (SockData k chunk clk) s) =
     emitted s @ (if 8 \<le> length chunk then [AttendanceRecordEv (emitted_record devId clk)] else [])"
  using resolve_all_member [of w "waiters s" "sk_once (sock_heap s ! k)" chunk]
  by (auto simp: awaiting_def command_timer_def settle_def on_data_def Let_def
      handleDeviceData_waiters handleDeviceData_emitted)

lemma on_data_resolves_all:
  "v \<in> set (sk_once (sock_heap s ! k)) \<Longrightarrow> v < length (waiters s) \<Longrightarrow>
   w_promise (waiters s ! v) = Pending \<Longrightarrow>
   w_promise (waiters (step (SockData k chunk clk) s) ! v) = Resolved chunk"
  using resolve_all_member [of v "waiters s" "sk_once (sock_heap s ! k)" chunk]
  by (simp add: on_data_def Let_def handleDeviceData_waiters)

lemma zk_quiet_run: "exec quiet_run zk_pending = Some zk_quiet"
  by (simp add: quiet_run_def zk_quiet_def zk_pending_eq zk_connected_eq zk_defs)

lemma zk_quiet_eq:
  "waiters zk_quiet = [\<lparr>w_promise = Pending, w_timer = True\<rparr>] \<and>
   sock_is Open 0 zk_quiet"
  by (simp add: zk_quiet_def zk_pending_eq zk_connected_eq zk_defs)

subsection \<open>sendCommand\<close>

text \<open>
  Claim C3, as amended. \<^verbatim>\<open>sendCommand\<close> for a device with no entry in the connections map
  throws. For a device whose socket \<open>k\<close> is open it writes the command as given, with no
  tag added, and returns a pending promise. In a run from the initial state the promise
  stays pending through every later event that is neither a chunk on socket \<open>k\<close> nor the
  timer of the call, chunks on other sockets included. Then the timer of the call
  rejects it with the command timeout, and a chunk on socket \<open>k\<close>, whatever it is,
  resolves it with that chunk; the same chunk is also handled as a notification (a
  record is emitted when it has at least eight bytes) and resolves every other command
  pending on that socket.
\<close>

theorem sendCommand_resolves_with_next_chunk:
  "(map_of (connections st) devId = None \<longrightarrow>
      sendCommand devId command st = Inl (DeviceNotConnected devId)) \<and>
   (map_of (connections st) devId = Some k \<and> sock_is Open k st \<longrightarrow>
     (\<exists>st1. sendCommand devId command st = Inr st1 \<and>
        sk_written (sock_heap st1 ! k) = sk_written (sock_heap st ! k) @ [command] \<and>
        waiters st1 = waiters st @ [\<lparr>w_promise = Pending, w_timer = True\<rparr>] \<and>
        enabled (SockData k chunk clk) st1 \<and>
        w_promise (waiters (step (SockData k chunk clk) st1) ! length (waiters st)) = Resolved chunk \<and>
        enabled (CommandTimer (length (waiters st))) st1 \<and>
        w_promise (waiters (step (CommandTimer (length (waiters st))) st1) ! length (waiters st)) =
          Rejected CommandTimeout)) \<and>
   (exec evs0 zk_init = Some st \<and> map_of (connections st) devId = Some k \<and> sock_is Open k st \<and>
    sendCommand devId command st = Inr st1 \<and>
    exec evs st1 = Some s \<and> \<not> list_ex (answers k (length (waiters st))) evs \<longrightarrow>
      w_promise (waiters s ! length (waiters st)) = Pending \<and>
      enabled (CommandTimer (length (waiters st))) s \<and>
      w_promise (waiters (step (CommandTimer (length (waiters st))) s) ! length (waiters st)) =
        Rejected CommandTimeout \<and>
      (enabled (SockData k chunk clk) s \<longrightarrow>
         w_promise (waiters (step (SockData k chunk clk) s) ! length (waiters st)) = Resolved chunk \<and>
         emitted (step (SockData k chunk clk) s) =
           emitted s @ (if 8 \<le> length chunk
                        then [AttendanceRecordEv (emitted_record devId clk)] else []) \<and>
         (v \<in> set (sk_once (sock_heap s ! k)) \<and> v < length (waiters s) \<and>
          w_promise (waiters s ! v) = Pending \<longrightarrow>
            w_promise (waiters (step (SockData k chunk clk) s) ! v) = Resolved chunk)))"
proof -
  have a: "map_of (connections st) devId = None \<longrightarrow>
      sendCommand devId command st = Inl (DeviceNotConnected devId)"
    by (simp add: sendCommand_def)
  have c: "w_promise (waiters s ! length (waiters st)) = Pending \<and>
      enabled (CommandTimer (length (waiters st))) s \<and>
      w_promise (waiters (step (CommandTimer (length (waiters st))) s) ! length (waiters st)) =
        Rejected CommandTimeout \<and>
      (enabled (SockData k chunk clk) s \<longrightarrow>
         w_promise (waiters (step (SockData k chunk clk) s) ! length (waiters st)) = Resolved chunk \<and>
         emitted (step (SockData k chunk clk) s) =
           emitted s @ (if 8 \<le> length chunk
                        then [AttendanceRecordEv (emitted_record devId clk)] else []) \<and>
         (v \<in> set (sk_once (sock_heap s ! k)) \<and> v < length (waiters s) \<and>
          w_promise (waiters s ! v) = Pending \<longrightarrow>
            w_promise (waiters (step (SockData k chunk clk) s) ! v) = Resolved chunk))"
    if r: "exec evs0 zk_init = Some st" and m: "map_of (connections st) devId = Some k"
      and o: "sock_is Open k st" and s1: "sendCommand devId command st = Inr st1"
      and e: "exec evs st1 = Some s" and q: "\<not> list_ex (answers k (length (waiters st))) evs"
  proof -
    from exec_awaiting [OF e sendCommand_awaiting_start [OF r m o s1] q]
    have w: "awaiting devId k (length (waiters st)) s" .
    from awaiting_answer [OF w, of chunk clk] on_data_resolves_all [of v s k chunk clk]
    show ?thesis by blast
  qed
  from a sendCommand_connected [of st devId k command chunk clk] c show ?thesis by blast
qed

text \<open>
  Claim C3 as amended, at a concrete input: a command to MB2000, which is not
  connected, and a command to the connected ZK001, answered at once by a three-byte
  chunk or by the timer, or, after a second socket has connected and delivered a
  chunk, by an eight-byte chunk on socket 0 or by the timer.
\<close>

theorem sendCommand_resolves_with_next_chunk_witness:
  "exec [AddDevice zk001 0, SockConnect 0 0] zk_init = Some zk_connected \<and>
   map_of (connections zk_connected) ''ZK001'' = Some 0 \<and> sock_is Open 0 zk_connected \<and>
   map_of (connections zk_connected) ''MB2000'' = None \<and>
   sendCommand ''MB2000'' [1, 2] zk_connected = Inl (DeviceNotConnected ''MB2000'') \<and>
   sendCommand ''ZK001'' [1, 2] zk_connected = Inr zk_pending \<and>
   sk_written (sock_heap zk_pending ! 0) = [[1, 2]] \<and>
   w_promise (waiters (step (SockData 0 [9, 9, 9] at_0830Z) zk_pending) ! 0) = Resolved [9, 9, 9] \<and>
   w_promise (waiters (step (CommandTimer 0) zk_pending) ! 0) = Rejected CommandTimeout \<and>
   exec quiet_run zk_pending = Some zk_quiet \<and> \<not> list_ex (answers 0 0) quiet_run \<and>
   w_promise (waiters zk_quiet ! 0) = Pending \<and>
   enabled (SockData 0 frame8 at_083010Z) zk_quiet \<and>
   w_promise (waiters (step (SockData 0 frame8 at_083010Z) zk_quiet) ! 0) = Resolved frame8 \<and>
   emitted (step (SockData 0 frame8 at_083010Z) zk_quiet) =
     emitted zk_quiet @ [AttendanceRecordEv (emitted_record ''ZK001'' at_083010Z)] \<and>
   w_promise (waiters (step (CommandTimer 0) zk_quiet) ! 0) = Rejected CommandTimeout"
proof -
  have r: "exec [AddDevice zk001 0, SockConnect 0 0] zk_init = Some zk_connected"
    by (subst exec_connect) simp
  have a: "map_of (connections zk_connected) ''ZK001'' = Some 0 \<and> sock_is Open 0 zk_connected"
    and b: "map_of (connections zk_connected) ''MB2000'' = None"
    and l: "length (waiters zk_connected) = 0" "sk_written (sock_heap zk_connected ! 0) = []"
    by (simp_all add: zk_connected_eq sock_is_def)
  have p: "sendCommand ''ZK001'' [1, 2] zk_connected = Inr zk_pending"
    by (simp add: zk_pending_def or_unchanged_def sendCommand_def zk_connected_eq Let_def)
  have q: "\<not> list_ex (answers 0 0) quiet_run" by (simp add: quiet_run_def)
  have en: "enabled (SockData 0 frame8 at_083010Z) zk_quiet" using zk_quiet_eq by simp
  have f: "8 \<le> length frame8" by (simp add: frame8_def)
  note t = sendCommand_resolves_with_next_chunk
         [of zk_connected "''ZK001''" "[1, 2]" 0 "[9, 9, 9]" at_0830Z
             "[AddDevice zk001 0, SockConnect 0 0]" zk_pending quiet_run zk_quiet 0]
  note u = sendCommand_resolves_with_next_chunk
         [of zk_connected "''ZK001''" "[1, 2]" 0 frame8 at_083010Z
             "[AddDevice zk001 0, SockConnect 0 0]" zk_pending quiet_run zk_quiet 0]
  note n = sendCommand_resolves_with_next_chunk
         [of zk_connected "''MB2000''" "[1, 2]" 0 "[9, 9, 9]" at_0830Z
             "[AddDevice zk001 0, SockConnect 0 0]" zk_pending quiet_run zk_quiet 0]
  from t a obtain st1 where s: "sendCommand ''ZK001'' [1, 2] zk_connected = Inr st1"
      "sk_written (sock_heap st1 ! 0) = sk_written (sock_heap zk_connected ! 0) @ [[1, 2]]"
      "w_promise (waiters (step (SockData 0 [9, 9, 9] at_0830Z) st1) ! length (waiters zk_connected)) =
         Resolved [9, 9, 9]"
      "w_promise (waiters (step (CommandTimer (length (waiters zk_connected))) st1) !
         length (waiters zk_connected)) = Rejected CommandTimeout"
    by blast
  from s(1) p have e: "st1 = zk_pending" by simp
  from n b have nc: "sendCommand ''MB2000'' [1, 2] zk_connected = Inl (DeviceNotConnected ''MB2000'')"
    by blast
  from u r a p zk_quiet_run q en l(1)
  have late: "w_promise (waiters zk_quiet ! length (waiters zk_connected)) = Pending \<and>
      w_promise (waiters (step (CommandTimer (length (waiters zk_connected))) zk_quiet) !
         length (waiters zk_connected)) = Rejected CommandTimeout \<and>
      w_promise (waiters (step (SockData 0 frame8 at_083010Z) zk_quiet) !
         length (waiters zk_connected)) = Resolved frame8 \<and>
      emitted (step (SockData 0 frame8 at_083010Z) zk_quiet) =
        emitted zk_quiet @ (if 8 \<le> length frame8
                        then [AttendanceRecordEv (emitted_record ''ZK001'' at_083010Z)] else [])"
    by simp
  show ?thesis using r a b p nc s(2,3,4) l zk_quiet_run q en late f unfolding e by simp
qed

text \<open>
  Claim C3 as stated fails. Two commands are pending on the socket of ZK001 when one
  chunk arrives: both promises are resolved with that same chunk, and the chunk is also
  handled as a notification, for which an attendance record is emitted.
\<close>

theorem sendCommand_counterexample:
  "map_option outcomes
     (exec [AddDevice zk001 0, SockConnect 0 0, SendCommand ''ZK001'' [1], SendCommand ''ZK001'' [2],
            SockData 0 frame8 at_0830Z] zk_init) = Some [Resolved frame8, Resolved frame8] \<and>
   map_option emitted
     (exec [AddDevice zk001 0, SockConnect 0 0, SendCommand ''ZK001'' [1], SendCommand ''ZK001'' [2],
            SockData 0 frame8 at_0830Z] zk_init) =
     Some [DeviceConnected ''ZK001'', AttendanceRecordEv (emitted_record ''ZK001'' at_0830Z)]"
  by (simp add: zk_defs)

end
